theory Spec2Isabelle
  imports Main "HOL-Library.Word"
begin

section \<open>Data model of the vault wallet (accounts/vault)\<close>

text \<open>
  The Go package \<open>vault\<close> is embedded shallowly.  Structs are records, Go's
  \<open>(value, error)\<close> results are pairs whose error component is an option
  (\<open>None\<close> is \<open>nil\<close>), pointers that may be \<open>nil\<close> are options, and a panic is
  a value of the type \<open>outcome\<close>.  Everything the package calls in other packages
  (the vault HTTP client, the crypto primitives, the address helpers) is a
  parameter of the model, collected in the records \<open>vaultAPI\<close> and \<open>externals\<close>.
\<close>

subsection \<open>Secret descriptors and the request data derived from them\<close>

record ClientData =
  Url :: string
  Approle :: string
  CaCert :: string
  ClientCert :: string
  ClientKey :: string

text \<open>
  \<open>Version\<close> is a Go \<open>int\<close>.  The package only compares it with zero and prints
  it in decimal, so no arithmetic can overflow and it is modelled as an integer.
\<close>

record SecretData =
  Name :: string
  SecretEngine :: string
  Version :: int
  AccountID :: string
  KeyID :: string

record URL =
  Scheme :: string
  Path :: string

definition emptyURL :: URL where
  "emptyURL = \<lparr>Scheme = [], Path = []\<rparr>"

datatype error =
    ErrWalletAlreadyOpen
  | ErrWalletClosed
  | ErrUnknownAccount
  | ErrNotSupported
  | Errorf string
  | ErrorsNew string
  | ExternalError string
  | HashicorpError string SecretData URL "error option"

text \<open>\<open>strconv.Itoa\<close>: the decimal digits of an integer, most significant first.\<close>

definition digit_char :: "nat \<Rightarrow> char" where
  "digit_char d = ''0123456789'' ! d"

fun natToDec :: "nat \<Rightarrow> string" where
  "natToDec n = (if n < 10 then [digit_char n] else natToDec (n div 10) @ [digit_char (n mod 10)])"

lemmas natToDec_simp = natToDec.simps

declare natToDec.simps [simp del]

definition Itoa :: "int \<Rightarrow> string" where
  "Itoa i = (if i < 0 then CHR ''-'' # natToDec (nat (- i)) else natToDec (nat i))"

text \<open>Reading a decimal numeral back, used to state that \<open>Itoa\<close> prints the number.\<close>

definition decVal :: "string \<Rightarrow> nat" where
  "decVal s = foldl (\<lambda>a c. 10 * a + (of_char c - 48)) 0 s"

type_synonym query = "string \<rightharpoonup> string list"

text \<open>
  \<open>toRequestData\<close> returns a Go triple \<open>(string, map[string][]string, error)\<close>; a
  \<open>nil\<close> map and a \<open>nil\<close> error are \<open>None\<close>.
\<close>

definition toRequestData :: "SecretData \<Rightarrow> string \<times> query option \<times> error option" where
  "toRequestData s =
     (let path = SecretEngine s @ ''/data/'' @ Name s;
          queryParams = (Map.empty :: query)
      in if Version s < 0
         then ([], None, Some (Errorf ''Hashicorp Vault secret version must be integer >= 0''))
         else (path, Some (queryParams(''version'' \<mapsto> [Itoa (Version s)])), None))"


subsection \<open>Account URLs\<close>

text \<open>
  \<open>strings.Split(s, sep)\<close> for a non-empty separator: the pieces between the
  non-overlapping occurrences of \<open>sep\<close>, found from the left.  \<open>acc\<close> holds the
  current piece, reversed.
\<close>

function split_go :: "string \<Rightarrow> string \<Rightarrow> string \<Rightarrow> string list" where
  "split_go sep acc [] = [rev acc]"
| "split_go sep acc (c # cs) =
     (if sep \<noteq> [] \<and> take (length sep) (c # cs) = sep
      then rev acc # split_go sep [] (drop (length sep) (c # cs))
      else split_go sep (c # acc) cs)"
  by pat_completeness auto
termination
  by (relation "measure (\<lambda>(sep, acc, s). length s)") auto

definition Split :: "string \<Rightarrow> string \<Rightarrow> string list" where
  "Split s sep = split_go sep [] s"

definition parseURL :: "string \<Rightarrow> URL \<times> error option" where
  "parseURL u =
     (let parts = Split u ''://''
      in if length parts \<noteq> 2 \<or> parts ! 0 = []
         then (emptyURL, Some (ErrorsNew ''protocol scheme missing''))
         else (\<lparr>Scheme = parts ! 0, Path = parts ! 1\<rparr>, None))"

subsection \<open>Values held by the vault and the client talking to it\<close>

text \<open>A Go \<open>interface{}\<close> decoded from JSON; \<open>JNil\<close> is the \<open>nil\<close> interface.\<close>

datatype jval =
    JNil
  | JBool bool
  | JNumber int
  | JString string
  | JArray "jval list"
  | JObject "(string \<times> jval) list"

record SecretAuth =
  ClientToken :: string

text \<open>\<open>api.Secret\<close>: the fields the package reads.  Maps keyed by strings are association lists read with \<open>map_of\<close>.\<close>

record Secret =
  Data :: "(string \<times> jval) list"
  Auth :: "SecretAuth option"

record Client =
  address :: string
  token :: string

text \<open>
  The vault client library and the server behind it, as the package uses them:
  \<open>api.NewClient\<close> (which reads the ambient token from the environment),
  \<open>SetAddress\<close> (which only validates the address here; the model stores it),
  \<open>Logical().ReadWithData\<close> and \<open>Logical().Write\<close>.
\<close>

record vaultAPI =
  NewClient :: "(string \<rightharpoonup> string) \<Rightarrow> error + Client"
  SetAddress :: "string \<Rightarrow> error option"
  ReadWithData :: "Client \<Rightarrow> string \<Rightarrow> query \<Rightarrow> Secret option \<times> error option"
  Write :: "Client \<Rightarrow> string \<Rightarrow> (string \<times> jval) list \<Rightarrow> Secret option \<times> error option"

subsection \<open>Accounts, keys, transactions and the primitives of other packages\<close>

type_synonym Address = "8 word list"

record Account =
  Address :: Address
  URL :: URL

definition emptyAccount :: Account where
  "emptyAccount = \<lparr>Address = replicate 20 0, URL = emptyURL\<rparr>"

text \<open>
  \<open>ecdsa.PrivateKey\<close>: the scalar \<open>D\<close> is a pointer to a \<open>big.Int\<close>, whose
  magnitude is a slice of machine words; \<open>None\<close> is the \<open>nil\<close> pointer of the
  empty key \<open>&ecdsa.PrivateKey{}\<close>.
\<close>

record PrivateKey =
  D :: "64 word list option"

definition emptyKey :: PrivateKey where
  "emptyKey = \<lparr>D = None\<rparr>"

record Transaction =
  txV :: nat
  txPayload :: "8 word list"

datatype Signer = EIP155Signer int | HomesteadSigner

text \<open>
  The primitives of \<open>common\<close>, \<open>crypto\<close> and \<open>core/types\<close>.  \<open>HexToECDSA\<close>
  returns either an error (and then a \<open>nil\<close> key) or a key whose scalar is set;
  the model takes the words of that scalar as its result.
\<close>

record externals =
  IsHexAddress :: "string \<Rightarrow> bool"
  HexToAddress :: "string \<Rightarrow> Address"
  HexToECDSA :: "string \<Rightarrow> error + 64 word list"
  Sign :: "8 word list \<Rightarrow> PrivateKey \<Rightarrow> 8 word list option \<times> error option"
  IsPrivate :: "Transaction \<Rightarrow> bool"
  typesSignTx :: "Transaction \<Rightarrow> Signer \<Rightarrow> PrivateKey \<Rightarrow> Transaction option \<times> error option"

datatype WalletEventKind = WalletArrived | WalletOpened | WalletDropped

text \<open>A wallet event names its wallet by the wallet's URL.\<close>

record WalletEvent =
  Wallet :: URL
  Kind :: WalletEventKind

text \<open>What a call does besides returning: in the order in which it happens.\<close>

datatype effect =
    Stdout string
  | LogWarn string error
  | FeedSend WalletEvent
  | VaultWrite string "(string \<times> jval) list"

text \<open>
  How a call ends: it returns a value, it panics, or it waits for a lock that is
  never released and so does not return.
\<close>

datatype 'a outcome = Return 'a | Panic string | Blocked

subsection \<open>The wallet and its constructors\<close>

text \<open>
  \<open>rlocks\<close> is the number of read locks held on \<open>stateLock\<close> between calls.  A
  write lock is always released by the call that took it, so it is never held
  between calls; \<open>Lock()\<close> blocks for as long as \<open>rlocks\<close> is not zero.
  \<open>updateFeed\<close> says whether the feed pointer is not \<open>nil\<close>; a \<open>nil\<close> slice and
  a \<open>nil\<close> map read as empty.
\<close>

record hashicorpWallet =
  rlocks :: nat
  url :: URL
  clientData :: ClientData
  secrets :: "SecretData list"
  accounts :: "Account list"
  accountsSecretMap :: "Address \<rightharpoonup> SecretData"
  client :: "Client option"
  updateFeed :: bool

definition emptyClientData :: ClientData where
  "emptyClientData = \<lparr>Url = [], Approle = [], CaCert = [], ClientCert = [], ClientKey = []\<rparr>"

definition emptyWallet :: hashicorpWallet where
  "emptyWallet = \<lparr>rlocks = 0, url = emptyURL, clientData = emptyClientData, secrets = [],
     accounts = [], accountsSecretMap = Map.empty, client = None, updateFeed = False\<rparr>"

definition newHashicorpWallet :: "ClientData \<Rightarrow> SecretData list \<Rightarrow> hashicorpWallet \<times> error option" where
  "newHashicorpWallet cd scrts =
     (case parseURL (Url cd) of
        (u, Some err) \<Rightarrow> (emptyWallet, Some err)
      | (u, None) \<Rightarrow> (emptyWallet\<lparr>clientData := cd, secrets := scrts, url := u\<rparr>, None))"

definition NewHashicorpWallet :: "ClientData \<Rightarrow> SecretData list \<Rightarrow> bool \<Rightarrow> hashicorpWallet \<times> error option" where
  "NewHashicorpWallet cd scrts feed =
     (case newHashicorpWallet cd scrts of (hw, err) \<Rightarrow> (hw\<lparr>updateFeed := feed\<rparr>, err))"

subsection \<open>The backend\<close>

record HashicorpConfig =
  ClientData :: ClientData
  Secrets :: "SecretData list"

record hashicorpBackend =
  wallets :: "hashicorpWallet list"
  hashicorpConfigs :: "HashicorpConfig list"

text \<open>
  The loop of \<open>refreshWallets\<close> over the configurations: it returns the warnings
  logged, the events and the wallets appended, each in order.
\<close>

fun buildWallets :: "HashicorpConfig list \<Rightarrow> effect list \<times> WalletEvent list \<times> hashicorpWallet list" where
  "buildWallets [] = ([], [], [])"
| "buildWallets (hc # hcs) =
     (case NewHashicorpWallet (ClientData hc) (Secrets hc) True of
        (w, err) \<Rightarrow>
          (case buildWallets hcs of
             (logs, events, ws) \<Rightarrow>
               ((case err of Some e \<Rightarrow> [LogWarn ''Unable to create Hashicorp wallet'' e] | None \<Rightarrow> []) @ logs,
                \<lparr>Wallet = url w, Kind = WalletArrived\<rparr> # events,
                w # ws)))"

definition refreshWallets :: "hashicorpBackend \<Rightarrow> effect list \<times> hashicorpBackend" where
  "refreshWallets hb =
     (if length (wallets hb) = 0
      then (case buildWallets (hashicorpConfigs hb) of
              (logs, events, ws) \<Rightarrow> (logs @ map FeedSend events, hb\<lparr>wallets := ws\<rparr>))
      else ([], hb))"

definition NewHashicorpBackend :: "HashicorpConfig list \<Rightarrow> effect list \<times> hashicorpBackend" where
  "NewHashicorpBackend cfgs = refreshWallets \<lparr>wallets = [], hashicorpConfigs = cfgs\<rparr>"

definition Wallets :: "hashicorpBackend \<Rightarrow> hashicorpWallet list" where
  "Wallets hb = wallets hb"

subsection \<open>Reading the vault\<close>

text \<open>
  \<open>read\<close> takes and releases a read lock around the request.  Calling a method of
  the \<open>nil\<close> client is a run-time panic.
\<close>

definition read :: "vaultAPI \<Rightarrow> hashicorpWallet \<Rightarrow> string \<Rightarrow> query \<Rightarrow> (Secret option \<times> error option) outcome" where
  "read api hw path queryParams =
     (case client hw of
        None \<Rightarrow> Panic ''invalid memory address or nil pointer dereference''
      | Some c \<Rightarrow> Return (ReadWithData api c path queryParams))"

definition queryOf :: "query option \<Rightarrow> query" where
  "queryOf q = (case q of None \<Rightarrow> Map.empty | Some m \<Rightarrow> m)"

definition getAccount ::
  "vaultAPI \<Rightarrow> externals \<Rightarrow> hashicorpWallet \<Rightarrow> SecretData \<Rightarrow> (Account \<times> error option) outcome" where
  "getAccount api ext hw secretData =
     (case toRequestData secretData of
        (path, queryParams, Some err) \<Rightarrow>
          Return (emptyAccount,
                  Some (HashicorpError ''unable to get secret URL from data'' secretData emptyURL (Some err)))
      | (path, queryParams, None) \<Rightarrow>
          (case read api hw path (queryOf queryParams) of
             Panic p \<Rightarrow> Panic p
           | Blocked \<Rightarrow> Blocked
           | Return (secret, Some err) \<Rightarrow>
               Return (emptyAccount,
                       Some (HashicorpError ''unable to retrieve secret from vault'' secretData (url hw) (Some err)))
           | Return (None, None) \<Rightarrow> Panic ''invalid memory address or nil pointer dereference''
           | Return (Some secret, None) \<Rightarrow>
               (case map_of (Data secret) ''data'' of
                  Some (JObject m) \<Rightarrow>
                    (case map_of m (AccountID secretData) of
                       None \<Rightarrow>
                         Return (emptyAccount,
                                 Some (HashicorpError ''no value found in vault with provided AccountID''
                                         secretData (url hw) None))
                     | Some (JString strAcct) \<Rightarrow>
                         (if IsHexAddress ext strAcct
                          then (case parseURL (Url (clientData hw) @ ''/v1/'' @ path @ ''?version=''
                                                 @ Itoa (Version secretData)) of
                                  (u, Some err) \<Rightarrow>
                                    Return (emptyAccount,
                                            Some (HashicorpError ''unable to create account URL''
                                                    secretData (url hw) (Some err)))
                                | (u, None) \<Rightarrow>
                                    Return (\<lparr>Address = HexToAddress ext strAcct, URL = u\<rparr>, None))
                          else Return (emptyAccount,
                                       Some (HashicorpError ''unable to get account from vault''
                                               secretData (url hw) None)))
                     | Some _ \<Rightarrow>
                         Return (emptyAccount,
                                 Some (HashicorpError ''AccountID value in vault is not plain string''
                                         secretData (url hw) None)))
                | _ \<Rightarrow> Panic ''interface conversion: interface {} is not map[string]interface {}'')))"

text \<open>
  \<open>getPrivateKey\<close> returns what it printed on standard output together with its
  result.  On every error path the key returned is the freshly made empty key.
\<close>

definition getPrivateKey ::
  "vaultAPI \<Rightarrow> externals \<Rightarrow> hashicorpWallet \<Rightarrow> SecretData \<Rightarrow> effect list \<times> (PrivateKey \<times> error option) outcome" where
  "getPrivateKey api ext hw secretData =
     (case toRequestData secretData of
        (path, queryParams, Some err) \<Rightarrow> ([], Return (emptyKey, Some err))
      | (path, queryParams, None) \<Rightarrow>
          (case read api hw path (queryOf queryParams) of
             Panic p \<Rightarrow> ([], Panic p)
           | Blocked \<Rightarrow> ([], Blocked)
           | Return (secret, Some err) \<Rightarrow> ([], Return (emptyKey, Some err))
           | Return (None, None) \<Rightarrow> ([], Panic ''invalid memory address or nil pointer dereference'')
           | Return (Some secret, None) \<Rightarrow>
               (case map_of (Data secret) ''data'' of
                  Some (JObject m) \<Rightarrow>
                    (case map_of m (KeyID secretData) of
                       None \<Rightarrow> ([], Return (emptyKey, Some ErrUnknownAccount))
                     | Some (JString pk) \<Rightarrow>
                         (case HexToECDSA ext pk of
                            Inl err \<Rightarrow>
                              ([Stdout (''Private key: '' @ pk @ [CHR 0x0A])], Return (emptyKey, Some err))
                          | Inr ws \<Rightarrow>
                              ([Stdout (''Private key: '' @ pk @ [CHR 0x0A])], Return (\<lparr>D = Some ws\<rparr>, None)))
                     | Some _ \<Rightarrow> ([], Panic ''Not of type string''))
                | _ \<Rightarrow> ([], Panic ''interface conversion: interface {} is not map[string]interface {}''))))"

subsection \<open>Zeroing a key\<close>

text \<open>The loop \<open>for i := range b { b[i] = 0 }\<close> of \<open>zeroKey\<close>, from index \<open>i\<close> on.\<close>

function zeroBits :: "nat \<Rightarrow> 64 word list \<Rightarrow> 64 word list" where
  "zeroBits i b = (if i < length b then zeroBits (Suc i) (b[i := 0]) else b)"
  by pat_completeness auto
termination
  by (relation "measure (\<lambda>(i, b). length b - i)") auto

lemmas zeroBits_simp = zeroBits.simps

declare zeroBits.simps [simp del]

text \<open>\<open>k.D.Bits()\<close> dereferences the scalar, which panics on the empty key.\<close>

definition zeroKey :: "PrivateKey \<Rightarrow> PrivateKey outcome" where
  "zeroKey k =
     (case D k of
        None \<Rightarrow> Panic ''invalid memory address or nil pointer dereference''
      | Some b \<Rightarrow> Return (k\<lparr>D := Some (zeroBits 0 b)\<rparr>))"

text \<open>A key whose scalar holds no word other than zero (the empty key has no words).\<close>

definition zeroed :: "PrivateKey \<Rightarrow> bool" where
  "zeroed k = (case D k of None \<Rightarrow> True | Some ws \<Rightarrow> list_all (\<lambda>w. w = 0) ws)"

definition keyMemoryZeroed :: "PrivateKey option \<Rightarrow> bool" where
  "keyMemoryZeroed mem = (case mem of None \<Rightarrow> True | Some k \<Rightarrow> zeroed k)"

subsection \<open>Refreshing the accounts\<close>

text \<open>
  The loop of \<open>refreshAccounts\<close> from index \<open>i\<close> on, over the remaining secrets,
  with the slice and the map built so far.  The wallet is only read.
\<close>

fun refreshLoop ::
  "vaultAPI \<Rightarrow> externals \<Rightarrow> hashicorpWallet \<Rightarrow> nat \<Rightarrow> SecretData list \<Rightarrow> Account list \<Rightarrow>
   (Address \<rightharpoonup> SecretData) \<Rightarrow> (error + Account list \<times> (Address \<rightharpoonup> SecretData)) outcome" where
  "refreshLoop api ext hw i [] accts acctsScrtsMap = Return (Inr (accts, acctsScrtsMap))"
| "refreshLoop api ext hw i (secret # rest) accts acctsScrtsMap =
     (case getAccount api ext hw secret of
        Panic p \<Rightarrow> Panic p
      | Blocked \<Rightarrow> Blocked
      | Return (acct, Some err) \<Rightarrow> Return (Inl err)
      | Return (acct, None) \<Rightarrow>
          refreshLoop api ext hw (Suc i) rest (accts[i := acct]) (acctsScrtsMap(Address acct \<mapsto> secret)))"

definition refreshAccounts ::
  "vaultAPI \<Rightarrow> externals \<Rightarrow> hashicorpWallet \<Rightarrow> hashicorpWallet \<times> error option outcome" where
  "refreshAccounts api ext hw =
     (case refreshLoop api ext hw 0 (secrets hw) (replicate (length (secrets hw)) emptyAccount) Map.empty of
        Panic p \<Rightarrow> (hw, Panic p)
      | Blocked \<Rightarrow> (hw, Blocked)
      | Return (Inl err) \<Rightarrow> (hw, Return (Some err))
      | Return (Inr (accts, acctsScrtsMap)) \<Rightarrow>
          (hw\<lparr>accounts := accts, accountsSecretMap := acctsScrtsMap\<rparr>, Return None))"

text \<open>
  Names for stating what \<open>refreshAccounts\<close> does: a descriptor resolves when
  \<open>getAccount\<close> returns an account and no error, and \<open>accountOf\<close> is that account.
\<close>

definition resolves :: "vaultAPI \<Rightarrow> externals \<Rightarrow> hashicorpWallet \<Rightarrow> SecretData \<Rightarrow> bool" where
  "resolves api ext hw s = (case getAccount api ext hw s of Return (a, None) \<Rightarrow> True | _ \<Rightarrow> False)"

definition accountOf :: "vaultAPI \<Rightarrow> externals \<Rightarrow> hashicorpWallet \<Rightarrow> SecretData \<Rightarrow> Account" where
  "accountOf api ext hw s = (case getAccount api ext hw s of Return (a, e) \<Rightarrow> a | _ \<Rightarrow> emptyAccount)"

subsection \<open>Opening and closing\<close>

definition vaultRoleId :: string where "vaultRoleId = ''VAULT_ROLE_ID''"
definition vaultSecretId :: string where "vaultSecretId = ''VAULT_SECRET_ID''"
definition vaultApprolePath :: string where "vaultApprolePath = ''VAULT_APPROLE_PATH''"

text \<open>The verb \<open>%q\<close> on a string of plain letters: the string in double quotes.\<close>

definition quoted :: "string \<Rightarrow> string" where
  "quoted s = CHR 0x22 # s @ [CHR 0x22]"

definition approleConfigError :: error where
  "approleConfigError =
     Errorf (''both '' @ quoted vaultRoleId @ '' and '' @ quoted vaultSecretId
             @ '' environment variables must be set to use Approle authentication'')"

text \<open>
  The end of \<open>Open\<close>, after the client is authenticated: the event is sent on the
  feed (a panic when the feed pointer is \<open>nil\<close>) and then the client is stored.
\<close>

definition finishOpen ::
  "effect list \<Rightarrow> hashicorpWallet \<Rightarrow> Client \<Rightarrow> effect list \<times> hashicorpWallet \<times> error option outcome" where
  "finishOpen effs hw c =
     (if \<not> updateFeed hw
      then (effs, hw, Panic ''invalid memory address or nil pointer dereference'')
      else (effs @ [FeedSend \<lparr>Wallet = url hw, Kind = WalletOpened\<rparr>], hw\<lparr>client := Some c\<rparr>, Return None))"

text \<open>
  The operations of \<open>stateLock\<close> as one caller after another sees them.  A read
  lock can always be taken, since no write lock is held between calls; the write
  lock can be taken only when no read lock is held, and is released by a deferred
  call before its holder returns, so it leaves no trace in the state.
\<close>

definition RLock :: "hashicorpWallet \<Rightarrow> hashicorpWallet" where
  "RLock hw = hw\<lparr>rlocks := Suc (rlocks hw)\<rparr>"

definition RUnlock :: "hashicorpWallet \<Rightarrow> hashicorpWallet" where
  "RUnlock hw = hw\<lparr>rlocks := rlocks hw - 1\<rparr>"

definition canLock :: "hashicorpWallet \<Rightarrow> bool" where
  "canLock hw = (rlocks hw = 0)"

text \<open>
  \<open>Open\<close> takes the process environment as an argument.  Its first check returns
  without releasing the read lock it has just taken; every other path releases
  its locks.
\<close>

definition Open ::
  "vaultAPI \<Rightarrow> (string \<rightharpoonup> string) \<Rightarrow> hashicorpWallet \<Rightarrow> string \<Rightarrow>
   effect list \<times> hashicorpWallet \<times> error option outcome" where
  "Open api env hw0 passphrase =
     (let hw1 = RLock hw0
      in if client hw1 \<noteq> None
         then ([], hw1, Return (Some ErrWalletAlreadyOpen))
         else (let hw = RUnlock hw1
               in if \<not> canLock hw then ([], hw, Blocked)
                  else (case NewClient api env of
                          Inl err \<Rightarrow> ([], hw, Return (Some err))
                        | Inr c0 \<Rightarrow>
                            (case SetAddress api (Url (clientData hw)) of
                               Some err \<Rightarrow> ([], hw, Return (Some err))
                             | None \<Rightarrow>
                                 (let c = c0\<lparr>address := Url (clientData hw)\<rparr>;
                                      roleId = env vaultRoleId;
                                      secretId = env vaultSecretId
                                  in if (roleId \<noteq> None) \<noteq> (secretId \<noteq> None)
                                     then ([], hw, Return (Some approleConfigError))
                                     else (case (roleId, secretId) of
                                             (Some r, Some sid) \<Rightarrow>
                                               (let authData = [(''role_id'', JString r), (''secret_id'', JString sid)];
                                                    approlePath = (case env vaultApprolePath of
                                                                     None \<Rightarrow> ''approle'' | Some ap \<Rightarrow> ap);
                                                    hw' = hw\<lparr>clientData := (clientData hw)\<lparr>Approle := approlePath\<rparr>\<rparr>;
                                                    loginPath = ''auth/'' @ Approle (clientData hw') @ ''/login''
                                                in case Write api c loginPath authData of
                                                     (authResponse, Some err) \<Rightarrow>
                                                       ([VaultWrite loginPath authData], hw', Return (Some err))
                                                   | (None, None) \<Rightarrow>
                                                       ([VaultWrite loginPath authData], hw',
                                                        Panic ''invalid memory address or nil pointer dereference'')
                                                   | (Some authResponse, None) \<Rightarrow>
                                                       (case Auth authResponse of
                                                          None \<Rightarrow>
                                                            ([VaultWrite loginPath authData], hw',
                                                             Panic ''invalid memory address or nil pointer dereference'')
                                                        | Some a \<Rightarrow>
                                                            finishOpen [VaultWrite loginPath authData] hw'
                                                              (c\<lparr>token := ClientToken a\<rparr>)))
                                           | _ \<Rightarrow> finishOpen [] hw c))))))"

text \<open>The approle path \<open>Open\<close> logs in at: the environment's, or \<open>approle\<close>.\<close>

definition approlePathOf :: "(string \<rightharpoonup> string) \<Rightarrow> string" where
  "approlePathOf env = (case env vaultApprolePath of None \<Rightarrow> ''approle'' | Some ap \<Rightarrow> ap)"

text \<open>
  \<open>Close\<close> returns the wallet, the client object it let go of (whose token it
  cleared first) and its result.  Its write lock cannot be taken while a read
  lock is held.
\<close>

definition Close :: "hashicorpWallet \<Rightarrow> hashicorpWallet \<times> Client option \<times> error option outcome" where
  "Close hw =
     (if \<not> canLock hw then (hw, None, Blocked)
      else (case client hw of
              None \<Rightarrow> (hw, None, Return None)
            | Some c \<Rightarrow>
                (hw\<lparr>client := None, accounts := [], accountsSecretMap := Map.empty\<rparr>,
                 Some (c\<lparr>token := []\<rparr>), Return None)))"

subsection \<open>Listing and signing\<close>

definition Accounts :: "hashicorpWallet \<Rightarrow> Account list" where
  "Accounts hw = accounts hw"

definition Contains :: "hashicorpWallet \<Rightarrow> Account \<Rightarrow> bool" where
  "Contains hw account =
     list_ex (\<lambda>acct. Address acct = Address account \<and> (emptyURL = URL account \<or> URL acct = URL account))
       (accounts hw)"

text \<open>
  A signing call returns what it printed, the key object obtained for the call as
  it is in memory when the call returns (\<open>None\<close> when the call obtained none), and
  its result.  The deferred \<open>zeroKey\<close> runs after the signature is computed.  The
  read locks taken by the signing calls and by \<open>read\<close> are released by deferred
  calls before they return, and are left out.
\<close>

definition SignHash ::
  "vaultAPI \<Rightarrow> externals \<Rightarrow> hashicorpWallet \<Rightarrow> Account \<Rightarrow> 8 word list \<Rightarrow>
   effect list \<times> PrivateKey option \<times> (8 word list option \<times> error option) outcome" where
  "SignHash api ext hw account hash =
     (if client hw = None then ([], None, Return (None, Some ErrWalletClosed))
      else (case accountsSecretMap hw (Address account) of
              None \<Rightarrow> ([], None, Return (None, Some ErrUnknownAccount))
            | Some secretData \<Rightarrow>
                (case getPrivateKey api ext hw secretData of
                   (out, Panic p) \<Rightarrow> (out, None, Panic p)
                 | (out, Blocked) \<Rightarrow> (out, None, Blocked)
                 | (out, Return (key, Some err)) \<Rightarrow> (out, Some key, Return (None, Some err))
                 | (out, Return (key, None)) \<Rightarrow>
                     (let result = Sign ext hash key
                      in case zeroKey key of
                           Return key' \<Rightarrow> (out, Some key', Return result)
                         | Panic p \<Rightarrow> (out, Some key, Panic p)
                         | Blocked \<Rightarrow> (out, Some key, Blocked)))))"

text \<open>The choice of the signer in \<open>SignTx\<close>; \<open>None\<close> is the \<open>nil\<close> chain id.\<close>

definition chooseSigner :: "externals \<Rightarrow> Transaction \<Rightarrow> int option \<Rightarrow> Signer" where
  "chooseSigner ext tx chainID =
     (case chainID of
        Some cid \<Rightarrow> if \<not> IsPrivate ext tx then EIP155Signer cid else HomesteadSigner
      | None \<Rightarrow> HomesteadSigner)"

definition SignTx ::
  "vaultAPI \<Rightarrow> externals \<Rightarrow> hashicorpWallet \<Rightarrow> Account \<Rightarrow> Transaction \<Rightarrow> int option \<Rightarrow> bool \<Rightarrow>
   effect list \<times> PrivateKey option \<times> (Transaction option \<times> error option) outcome" where
  "SignTx api ext hw account tx chainID isQuorum =
     (if client hw = None then ([], None, Return (None, Some ErrWalletClosed))
      else (case accountsSecretMap hw (Address account) of
              None \<Rightarrow> ([], None, Return (None, Some ErrUnknownAccount))
            | Some secretData \<Rightarrow>
                (case getPrivateKey api ext hw secretData of
                   (out, Panic p) \<Rightarrow> (out, None, Panic p)
                 | (out, Blocked) \<Rightarrow> (out, None, Blocked)
                 | (out, Return (key, Some err)) \<Rightarrow> (out, Some key, Return (None, Some err))
                 | (out, Return (key, None)) \<Rightarrow>
                     (let result = typesSignTx ext tx (chooseSigner ext tx chainID) key
                      in case zeroKey key of
                           Return key' \<Rightarrow> (out, Some key', Return result)
                         | Panic p \<Rightarrow> (out, Some key, Panic p)
                         | Blocked \<Rightarrow> (out, Some key, Blocked)))))"

definition SignHashWithPassphrase ::
  "vaultAPI \<Rightarrow> externals \<Rightarrow> hashicorpWallet \<Rightarrow> Account \<Rightarrow> string \<Rightarrow> 8 word list \<Rightarrow>
   effect list \<times> PrivateKey option \<times> (8 word list option \<times> error option) outcome" where
  "SignHashWithPassphrase api ext hw account passphrase hash = SignHash api ext hw account hash"

definition SignTxWithPassphrase ::
  "vaultAPI \<Rightarrow> externals \<Rightarrow> hashicorpWallet \<Rightarrow> Account \<Rightarrow> string \<Rightarrow> Transaction \<Rightarrow> int option \<Rightarrow>
   effect list \<times> PrivateKey option \<times> (Transaction option \<times> error option) outcome" where
  "SignTxWithPassphrase api ext hw account passphrase tx chainID = SignTx api ext hw account tx chainID True"

subsection \<open>The wallet over a vault service (vault\_wallet.go)\<close>

text \<open>
  \<open>vaultWallet\<close> keeps its session in a \<open>VaultService\<close>, an interface whose
  implementation is not part of these sources; the two methods the signing calls
  depend on are parameters.
\<close>

record VaultService =
  isOpen :: bool
  serviceGetPrivateKey :: "Account \<Rightarrow> PrivateKey \<times> error option"

record vaultWallet =
  vault :: VaultService
  walletUrl :: URL
  walletAccounts :: "Account list"

definition vaultWallet_Contains :: "vaultWallet \<Rightarrow> Account \<Rightarrow> bool" where
  "vaultWallet_Contains w account =
     list_ex (\<lambda>wltAcct. Address wltAcct = Address account \<and> (URL account = emptyURL \<or> URL wltAcct = URL account))
       (walletAccounts w)"


definition vaultWallet_SignTx ::
  "externals \<Rightarrow> vaultWallet \<Rightarrow> Account \<Rightarrow> Transaction \<Rightarrow> int option \<Rightarrow> bool \<Rightarrow>
   PrivateKey option \<times> (Transaction option \<times> error option) outcome" where
  "vaultWallet_SignTx ext w account tx chainID isQuorum =
     (if \<not> vaultWallet_Contains w account then (None, Return (None, Some ErrUnknownAccount))
      else (case serviceGetPrivateKey (vault w) account of
              (key, Some err) \<Rightarrow> (Some key, Return (None, Some err))
            | (key, None) \<Rightarrow>
                (let result = typesSignTx ext tx (chooseSigner ext tx chainID) key
                 in case zeroKey key of
                      Return key' \<Rightarrow> (Some key', Return result)
                    | Panic p \<Rightarrow> (Some key, Panic p)
                    | Blocked \<Rightarrow> (Some key, Blocked))))"

subsection \<open>Test data\<close>

definition secret1 :: SecretData where
  "secret1 = \<lparr>Name = ''acct1'', SecretEngine = ''secret'', Version = 1,
              AccountID = ''address'', KeyID = ''key''\<rparr>"

definition secretNeg :: SecretData where
  "secretNeg = \<lparr>Name = ''acct1'', SecretEngine = ''secret'', Version = - 1,
                AccountID = ''address'', KeyID = ''key''\<rparr>"

text \<open>
  An in-memory vault and stand-ins for the primitives, for running the model.  The
  stand-in for \<open>crypto.Sign\<close> rejects a hash that is not 32 bytes long, as
  \<open>crypto.Sign\<close> does.
\<close>

definition addrHex :: string where
  "addrHex = ''0x00000000000000000000000000000000000000ab''"

definition keyHex :: string where
  "keyHex = ''0123''"

definition addr1 :: Address where
  "addr1 = replicate 19 0 @ [0xab]"

definition fakeExternals :: externals where
  "fakeExternals =
     \<lparr>IsHexAddress = (\<lambda>s. s = addrHex),
      HexToAddress = (\<lambda>s. if s = addrHex then addr1 else replicate 20 0),
      HexToECDSA = (\<lambda>pk. if pk = keyHex then Inr [0x0123] else Inl (ExternalError ''invalid hex string'')),
      Sign = (\<lambda>hash key. if length hash = 32 then (Some (replicate 65 1), None)
                           else (None, Some (ExternalError ''hash is required to be exactly 32 bytes''))),
      IsPrivate = (\<lambda>tx. txV tx = 37 \<or> txV tx = 38),
      typesSignTx = (\<lambda>tx signer key.
         (Some (tx\<lparr>txV := (case signer of EIP155Signer cid \<Rightarrow> nat (2 * cid + 35) | HomesteadSigner \<Rightarrow> 27)\<rparr>),
          None))\<rparr>"

definition secretOf :: "jval \<Rightarrow> Secret" where
  "secretOf k = \<lparr>Data = [(''data'', JObject [(''address'', JString addrHex), (''key'', k)])], Auth = None\<rparr>"

definition fakeVault :: vaultAPI where
  "fakeVault =
     \<lparr>NewClient = (\<lambda>env. Inr \<lparr>address = [], token = (case env ''VAULT_TOKEN'' of None \<Rightarrow> [] | Some t \<Rightarrow> t)\<rparr>),
      SetAddress = (\<lambda>a. None),
      ReadWithData = (\<lambda>c path q.
         if path = ''secret/data/acct1'' then (Some (secretOf (JString keyHex)), None)
         else if path = ''secret/data/acct2'' then (Some (secretOf (JNumber 7)), None)
         else if path = ''secret/data/absent'' then (None, None)
         else (None, Some (ExternalError ''connection refused''))),
      Write = (\<lambda>c path d.
         if path = ''auth/approle/login''
         then (Some \<lparr>Data = [], Auth = Some \<lparr>ClientToken = ''s.session''\<rparr>\<rparr>, None)
         else (None, Some (ExternalError ''permission denied'')))\<rparr>"

definition secret2 :: SecretData where
  "secret2 = \<lparr>Name = ''acct2'', SecretEngine = ''secret'', Version = 1,
              AccountID = ''address'', KeyID = ''key''\<rparr>"

definition secret3 :: SecretData where
  "secret3 = \<lparr>Name = ''gone'', SecretEngine = ''secret'', Version = 1,
              AccountID = ''address'', KeyID = ''key''\<rparr>"

definition clientData1 :: ClientData where
  "clientData1 = \<lparr>Url = ''http://vault:8200'', Approle = [], CaCert = [], ClientCert = [], ClientKey = []\<rparr>"

definition url1 :: URL where
  "url1 = \<lparr>Scheme = ''http'', Path = ''vault:8200''\<rparr>"

definition account1 :: Account where
  "account1 = \<lparr>Address = addr1, URL = emptyURL\<rparr>"


definition closedWallet :: hashicorpWallet where
  "closedWallet = \<lparr>rlocks = 0, url = url1, clientData = clientData1, secrets = [secret1],
     accounts = [], accountsSecretMap = Map.empty, client = None, updateFeed = True\<rparr>"

definition client1 :: Client where
  "client1 = \<lparr>address = ''http://vault:8200'', token = ''root''\<rparr>"

definition openWallet :: hashicorpWallet where
  "openWallet = closedWallet\<lparr>client := Some client1, accounts := [account1],
     accountsSecretMap := [addr1 \<mapsto> secret1]\<rparr>"

definition fakeService :: VaultService where
  "fakeService = \<lparr>isOpen = True, serviceGetPrivateKey = (\<lambda>a. (\<lparr>D = Some [0x0123]\<rparr>, None))\<rparr>"

definition vaultWallet1 :: vaultWallet where
  "vaultWallet1 = \<lparr>vault = fakeService, walletUrl = url1, walletAccounts = [account1]\<rparr>"



text \<open>A descriptor of a secret that the vault does not hold: the client answers \<open>(nil, nil)\<close>.\<close>

definition secretAbsent :: SecretData where
  "secretAbsent = \<lparr>Name = ''absent'', SecretEngine = ''secret'', Version = 1,
                   AccountID = ''address'', KeyID = ''key''\<rparr>"

definition absentWallet :: hashicorpWallet where
  "absentWallet = openWallet\<lparr>secrets := [secretAbsent, secretNeg]\<rparr>"

definition envPartial :: "string \<rightharpoonup> string" where
  "envPartial = [''VAULT_TOKEN'' \<mapsto> ''root'', ''VAULT_ROLE_ID'' \<mapsto> ''role-1'']"

definition envToken :: "string \<rightharpoonup> string" where
  "envToken = [''VAULT_TOKEN'' \<mapsto> ''root'']"

definition envApprole :: "string \<rightharpoonup> string" where
  "envApprole = [''VAULT_TOKEN'' \<mapsto> ''root'', ''VAULT_ROLE_ID'' \<mapsto> ''role-1'',
                 ''VAULT_SECRET_ID'' \<mapsto> ''secret-1'']"

definition sessionWallet :: hashicorpWallet where
  "sessionWallet = closedWallet\<lparr>client := Some \<lparr>address = ''http://vault:8200'', token = ''root''\<rparr>\<rparr>"

definition clientDataBad :: ClientData where
  "clientDataBad = \<lparr>Url = ''vault:8200'', Approle = [], CaCert = [], ClientCert = [], ClientKey = []\<rparr>"

definition clientData3 :: ClientData where
  "clientData3 = \<lparr>Url = ''http://vault:8203'', Approle = [], CaCert = [], ClientCert = [], ClientKey = []\<rparr>"

definition url3 :: URL where
  "url3 = \<lparr>Scheme = ''http'', Path = ''vault:8203''\<rparr>"

definition config1 :: HashicorpConfig where
  "config1 = \<lparr>ClientData = clientData1, Secrets = [secret1]\<rparr>"

definition configBad :: HashicorpConfig where
  "configBad = \<lparr>ClientData = clientDataBad, Secrets = [secret2]\<rparr>"

definition config3 :: HashicorpConfig where
  "config3 = \<lparr>ClientData = clientData3, Secrets = [secret3]\<rparr>"

definition refreshWallet :: hashicorpWallet where
  "refreshWallet = openWallet\<lparr>secrets := [secret1, secret3, secret1]\<rparr>"

definition account1Located :: Account where
  "account1Located =
     \<lparr>Address = addr1, URL = \<lparr>Scheme = ''http'', Path = ''vault:8200/v1/secret/data/acct1?version=1''\<rparr>\<rparr>"

definition hash32 :: "8 word list" where
  "hash32 = replicate 32 0"

definition tx1 :: Transaction where
  "tx1 = \<lparr>txV = 0, txPayload = []\<rparr>"

definition txPrivate :: Transaction where
  "txPrivate = \<lparr>txV = 37, txPayload = []\<rparr>"

section \<open>Secret locator\<close>

lemma of_char_digit_char: "d < 10 \<Longrightarrow> of_char (digit_char d) = (48 + d :: nat)"
proof -
  assume "d < 10"
  then have "d \<in> {0, 1, 2, 3, 4, 5, 6, 7, 8, 9}" by auto
  then show ?thesis by (auto simp add: digit_char_def)
qed

lemma natToDec_1: "natToDec (Suc 0) = ''1''"
  by (subst natToDec_simp) (simp add: digit_char_def)

lemma Itoa_1: "Itoa 1 = ''1''"
  by (simp add: Itoa_def natToDec_1)

lemma decVal_snoc: "decVal (s @ [c]) = 10 * decVal s + (of_char c - 48)"
  by (simp add: decVal_def)

lemma decVal_natToDec: "decVal (natToDec n) = n"
proof (induction n rule: natToDec.induct)
  case (1 n)
  show ?case
  proof (cases "n < 10")
    case True
    then show ?thesis
      by (subst natToDec_simp) (simp add: decVal_def of_char_digit_char)
  next
    case False
    have "decVal (natToDec n) = 10 * decVal (natToDec (n div 10)) + (of_char (digit_char (n mod 10)) - 48)"
      using False by (subst natToDec_simp) (simp add: decVal_snoc)
    also have "\<dots> = 10 * (n div 10) + n mod 10"
      using "1.IH" [OF False] by (simp add: of_char_digit_char)
    also have "\<dots> = n" by simp
    finally show ?thesis .
  qed
qed

text \<open>
  C9.  The secret locator \<open>toRequestData\<close> is a function of the descriptor alone.
  For a descriptor whose version is not negative it returns the path
  \<open>{SecretEngine}/data/{Name}\<close>, a query that maps exactly the key \<open>version\<close> to
  the one-element list holding the decimal numeral of the version (reading that
  numeral back gives the version), and no error.  For a descriptor whose version
  is negative it returns the invalid-version error, the empty path and no query.
\<close>

theorem C9_toRequestData:
  "(0 \<le> Version s \<longrightarrow>
      (\<exists>q. toRequestData s = (SecretEngine s @ ''/data/'' @ Name s, Some q, None)
         \<and> dom q = {''version''}
         \<and> q ''version'' = Some [Itoa (Version s)]
         \<and> int (decVal (Itoa (Version s))) = Version s))
   \<and> (Version s < 0 \<longrightarrow>
      toRequestData s =
        ([], None, Some (Errorf ''Hashicorp Vault secret version must be integer >= 0'')))"
  by (simp add: toRequestData_def Let_def Itoa_def decVal_natToDec)

theorem C9_toRequestData_witness:
  "(\<exists>q. toRequestData secret1 = (''secret/data/acct1'', Some q, None)
        \<and> q ''version'' = Some [''1''])
   \<and> toRequestData secretNeg =
        ([], None, Some (Errorf ''Hashicorp Vault secret version must be integer >= 0''))"
proof -
  have pos: "0 \<le> Version secret1" and neg: "Version secretNeg < 0"
    by (simp_all add: secret1_def secretNeg_def)
  from C9_toRequestData [of secret1] pos obtain q where
    "toRequestData secret1 = (SecretEngine secret1 @ ''/data/'' @ Name secret1, Some q, None)"
    "q ''version'' = Some [Itoa (Version secret1)]"
    by blast
  then have "toRequestData secret1 = (''secret/data/acct1'', Some q, None) \<and> q ''version'' = Some [''1'']"
    by (simp add: secret1_def Itoa_1)
  moreover from C9_toRequestData [of secretNeg] neg have
    "toRequestData secretNeg =
        ([], None, Some (Errorf ''Hashicorp Vault secret version must be integer >= 0''))"
    by blast
  ultimately show ?thesis by blast
qed

section \<open>Key material: retrieval and zeroing\<close>

lemma zeroBits_eq: "zeroBits i b = take i b @ replicate (length b - i) 0"
proof (induction i b rule: zeroBits.induct)
  case (1 i b)
  show ?case
  proof (cases "i < length b")
    case True
    have "zeroBits i b = zeroBits (Suc i) (b[i := 0])"
      using True by (subst zeroBits_simp) simp
    also have "\<dots> = take (Suc i) (b[i := 0]) @ replicate (length b - Suc i) 0"
      using "1.IH" [OF True] by simp
    also have "\<dots> = take i b @ replicate (length b - i) 0"
    proof -
      have "length b - i = Suc (length b - Suc i)" using True by simp
      then show ?thesis using True by (simp add: take_Suc_conv_app_nth)
    qed
    finally show ?thesis .
  next
    case False
    then show ?thesis by (subst zeroBits_simp) simp
  qed
qed

lemma zeroBits_0: "zeroBits 0 b = replicate (length b) 0"
  by (simp add: zeroBits_eq)

lemma getPrivateKey_ok:
  "getPrivateKey api ext hw sd = (out, Return (key, None)) \<longleftrightarrow>
     (\<exists>path q c secret m pk ws.
        toRequestData sd = (path, q, None) \<and> client hw = Some c
        \<and> ReadWithData api c path (queryOf q) = (Some secret, None)
        \<and> map_of (Data secret) ''data'' = Some (JObject m)
        \<and> map_of m (KeyID sd) = Some (JString pk)
        \<and> HexToECDSA ext pk = Inr ws
        \<and> out = [Stdout (''Private key: '' @ pk @ [CHR 0x0A])]
        \<and> key = \<lparr>D = Some ws\<rparr>)"
  by (auto simp add: getPrivateKey_def read_def emptyKey_def
      split: prod.splits option.splits outcome.splits jval.splits sum.splits)

lemma getPrivateKey_err:
  "getPrivateKey api ext hw sd = (out, Return (key, Some err)) \<Longrightarrow> key = emptyKey"
  by (auto simp add: getPrivateKey_def read_def
      split: prod.splits option.splits outcome.splits jval.splits sum.splits)

lemma zeroKey_Some: "D key = Some ws \<Longrightarrow> zeroKey key = Return (key\<lparr>D := Some (replicate (length ws) 0)\<rparr>)"
  by (simp add: zeroKey_def zeroBits_0)

lemma zeroed_replicate: "zeroed \<lparr>D = Some (replicate n 0)\<rparr>"
  by (simp add: zeroed_def list_all_iff)

lemma zeroed_emptyKey: "zeroed emptyKey"
  by (simp add: zeroed_def emptyKey_def)

lemma getPrivateKey_cases:
  "(\<exists>out p. getPrivateKey api ext hw sd = (out, Panic p))
   \<or> (\<exists>out err. getPrivateKey api ext hw sd = (out, Return (emptyKey, Some err)))
   \<or> (\<exists>out ws. getPrivateKey api ext hw sd = (out, Return (\<lparr>D = Some ws\<rparr>, None)))"
  by (auto simp add: getPrivateKey_def read_def
      split: prod.splits option.splits outcome.splits jval.splits sum.splits)

lemma SignHash_memory: "keyMemoryZeroed (fst (snd (SignHash api ext hw account hash)))"
proof (cases "client hw = None")
  case True
  then show ?thesis by (simp add: SignHash_def keyMemoryZeroed_def)
next
  case isopen: False
  show ?thesis
  proof (cases "accountsSecretMap hw (Address account)")
    case None
    then show ?thesis using isopen by (simp add: SignHash_def keyMemoryZeroed_def)
  next
    case (Some sd)
    from getPrivateKey_cases [of api ext hw sd] show ?thesis
    proof (elim disjE exE)
      fix out p assume "getPrivateKey api ext hw sd = (out, Panic p)"
      then show ?thesis using isopen Some by (simp add: SignHash_def keyMemoryZeroed_def)
    next
      fix out err assume "getPrivateKey api ext hw sd = (out, Return (emptyKey, Some err))"
      then show ?thesis using isopen Some
        by (simp add: SignHash_def keyMemoryZeroed_def zeroed_emptyKey)
    next
      fix out ws assume "getPrivateKey api ext hw sd = (out, Return (\<lparr>D = Some ws\<rparr>, None))"
      then show ?thesis using isopen Some
        by (simp add: SignHash_def keyMemoryZeroed_def zeroKey_Some zeroed_replicate Let_def)
    qed
  qed
qed

lemma SignTx_memory: "keyMemoryZeroed (fst (snd (SignTx api ext hw account tx chainID isQuorum)))"
proof (cases "client hw = None")
  case True
  then show ?thesis by (simp add: SignTx_def keyMemoryZeroed_def)
next
  case isopen: False
  show ?thesis
  proof (cases "accountsSecretMap hw (Address account)")
    case None
    then show ?thesis using isopen by (simp add: SignTx_def keyMemoryZeroed_def)
  next
    case (Some sd)
    from getPrivateKey_cases [of api ext hw sd] show ?thesis
    proof (elim disjE exE)
      fix out p assume "getPrivateKey api ext hw sd = (out, Panic p)"
      then show ?thesis using isopen Some by (simp add: SignTx_def keyMemoryZeroed_def)
    next
      fix out err assume "getPrivateKey api ext hw sd = (out, Return (emptyKey, Some err))"
      then show ?thesis using isopen Some
        by (simp add: SignTx_def keyMemoryZeroed_def zeroed_emptyKey)
    next
      fix out ws assume "getPrivateKey api ext hw sd = (out, Return (\<lparr>D = Some ws\<rparr>, None))"
      then show ?thesis using isopen Some
        by (simp add: SignTx_def keyMemoryZeroed_def zeroKey_Some zeroed_replicate Let_def)
    qed
  qed
qed

lemma SignHash_past_retrieval:
  assumes "client hw \<noteq> None" and "accountsSecretMap hw (Address account) = Some sd"
    and "getPrivateKey api ext hw sd = (out, Return (key, None))"
  shows "\<exists>ws. D key = Some ws \<and>
           SignHash api ext hw account hash =
             (out, Some \<lparr>D = Some (replicate (length ws) 0)\<rparr>, Return (Sign ext hash key))"
proof -
  from assms(3) obtain ws where k: "key = \<lparr>D = Some ws\<rparr>"
    unfolding getPrivateKey_ok by blast
  then show ?thesis using assms
    by (simp add: SignHash_def zeroKey_Some Let_def)
qed

lemma SignTx_past_retrieval:
  assumes "client hw \<noteq> None" and "accountsSecretMap hw (Address account) = Some sd"
    and "getPrivateKey api ext hw sd = (out, Return (key, None))"
  shows "\<exists>ws. D key = Some ws \<and>
           SignTx api ext hw account tx chainID isQuorum =
             (out, Some \<lparr>D = Some (replicate (length ws) 0)\<rparr>,
              Return (typesSignTx ext tx (chooseSigner ext tx chainID) key))"
proof -
  from assms(3) obtain ws where k: "key = \<lparr>D = Some ws\<rparr>"
    unfolding getPrivateKey_ok by blast
  then show ?thesis using assms
    by (simp add: SignTx_def zeroKey_Some Let_def)
qed

lemma toRequestData_secret1:
  "toRequestData secret1 = (''secret/data/acct1'', Some [''version'' \<mapsto> [''1'']], None)"
  by (simp add: toRequestData_def secret1_def Itoa_1)

lemma getPrivateKey_openWallet:
  "getPrivateKey fakeVault fakeExternals openWallet secret1 =
     ([Stdout (''Private key: 0123'' @ [CHR 0x0A])], Return (\<lparr>D = Some [0x0123]\<rparr>, None))"
proof -
  have k: "KeyID secret1 = ''key''" by (simp add: secret1_def)
  show ?thesis
    by (simp add: getPrivateKey_def toRequestData_secret1 read_def openWallet_def closedWallet_def
        fakeVault_def fakeExternals_def secretOf_def keyHex_def k queryOf_def)
qed

text \<open>
  C1.  When \<open>SignHash\<close> or \<open>SignTx\<close> returns, the key object the call obtained
  holds no word other than zero.  In particular, when the key retrieval of the
  call succeeded with a key, that key has as many words as before and all of them
  are zero, and the call returns what the signing primitive returned, be it a
  signature or an error.  When the key-retrieval helper returns an error, the key
  it hands back is the empty key, which has no words.
\<close>

theorem C1_key_zeroed_after_signing:
  "keyMemoryZeroed (fst (snd (SignHash api ext hw account hash)))
   \<and> keyMemoryZeroed (fst (snd (SignTx api ext hw account tx chainID isQuorum)))
   \<and> (client hw \<noteq> None \<and> accountsSecretMap hw (Address account) = Some sd
        \<and> getPrivateKey api ext hw sd = (out, Return (key, None)) \<longrightarrow>
        (\<exists>ws. D key = Some ws
           \<and> SignHash api ext hw account hash =
               (out, Some \<lparr>D = Some (replicate (length ws) 0)\<rparr>, Return (Sign ext hash key))
           \<and> SignTx api ext hw account tx chainID isQuorum =
               (out, Some \<lparr>D = Some (replicate (length ws) 0)\<rparr>,
                Return (typesSignTx ext tx (chooseSigner ext tx chainID) key))))
   \<and> (getPrivateKey api ext hw sd = (out', Return (key', Some err)) \<longrightarrow> key' = emptyKey)"
  using SignHash_memory [of api ext hw account hash]
    SignTx_memory [of api ext hw account tx chainID isQuorum]
    SignHash_past_retrieval [of hw account sd api ext out key hash]
    SignTx_past_retrieval [of hw account sd api ext out key tx chainID isQuorum]
    getPrivateKey_err [of api ext hw sd out' key' err]
  by auto

theorem C1_key_zeroed_after_signing_witness:
  "getPrivateKey fakeVault fakeExternals openWallet secret1 =
     ([Stdout (''Private key: 0123'' @ [CHR 0x0A])], Return (\<lparr>D = Some [0x0123]\<rparr>, None))
   \<and> SignHash fakeVault fakeExternals openWallet account1 hash32 =
       ([Stdout (''Private key: 0123'' @ [CHR 0x0A])], Some \<lparr>D = Some [0]\<rparr>,
        Return (Some (replicate 65 1), None))
   \<and> SignHash fakeVault fakeExternals openWallet account1 [] =
       ([Stdout (''Private key: 0123'' @ [CHR 0x0A])], Some \<lparr>D = Some [0]\<rparr>,
        Return (None, Some (ExternalError ''hash is required to be exactly 32 bytes'')))
   \<and> SignTx fakeVault fakeExternals openWallet account1 tx1 None False =
       ([Stdout (''Private key: 0123'' @ [CHR 0x0A])], Some \<lparr>D = Some [0]\<rparr>,
        Return (Some (tx1\<lparr>txV := 27\<rparr>), None))"
proof -
  have c: "client openWallet \<noteq> None"
    and m: "accountsSecretMap openWallet (Address account1) = Some secret1"
    by (simp_all add: openWallet_def account1_def)
  note g = getPrivateKey_openWallet
  have s32: "Sign fakeExternals hash32 \<lparr>D = Some [0x0123]\<rparr> = (Some (replicate 65 1), None)"
    and s0: "Sign fakeExternals [] \<lparr>D = Some [0x0123]\<rparr> =
              (None, Some (ExternalError ''hash is required to be exactly 32 bytes''))"
    and st: "typesSignTx fakeExternals tx1 (chooseSigner fakeExternals tx1 None) \<lparr>D = Some [0x0123]\<rparr> =
              (Some (tx1\<lparr>txV := 27\<rparr>), None)"
    by (simp_all add: fakeExternals_def hash32_def chooseSigner_def)
  from C1_key_zeroed_after_signing
         [of fakeVault fakeExternals openWallet account1 hash32 tx1 None False secret1
             "[Stdout (''Private key: 0123'' @ [CHR 0x0A])]" "\<lparr>D = Some [0x0123]\<rparr>"]
       C1_key_zeroed_after_signing
         [of fakeVault fakeExternals openWallet account1 "[]" tx1 None False secret1
             "[Stdout (''Private key: 0123'' @ [CHR 0x0A])]" "\<lparr>D = Some [0x0123]\<rparr>"]
       c m g s32 s0 st
  show ?thesis by simp
qed

text \<open>
  C7.  Whenever the key-retrieval helper succeeds, what it wrote on standard output
  is the line \<open>Private key: \<close> followed by the very string stored in the key field
  of the secret, the string the returned key was parsed from.  A signing call on an
  account mapped to that secret writes the same line, so the output of every
  signing operation that retrieves its key shows the stored key.
\<close>

theorem C7_private_key_printed:
  "getPrivateKey api ext hw sd = (out, Return (key, None)) \<longrightarrow>
     (\<exists>path q c secret m pk ws.
        toRequestData sd = (path, q, None) \<and> client hw = Some c
        \<and> ReadWithData api c path (queryOf q) = (Some secret, None)
        \<and> map_of (Data secret) ''data'' = Some (JObject m)
        \<and> map_of m (KeyID sd) = Some (JString pk)
        \<and> HexToECDSA ext pk = Inr ws \<and> key = \<lparr>D = Some ws\<rparr>
        \<and> out = [Stdout (''Private key: '' @ pk @ [CHR 0x0A])]
        \<and> (accountsSecretMap hw (Address account) = Some sd \<longrightarrow>
              fst (SignHash api ext hw account hash) = [Stdout (''Private key: '' @ pk @ [CHR 0x0A])]
              \<and> fst (SignTx api ext hw account tx chainID isQuorum)
                  = [Stdout (''Private key: '' @ pk @ [CHR 0x0A])]))"
proof
  assume g: "getPrivateKey api ext hw sd = (out, Return (key, None))"
  then obtain path q c secret m pk ws where
    h: "toRequestData sd = (path, q, None)" "client hw = Some c"
       "ReadWithData api c path (queryOf q) = (Some secret, None)"
       "map_of (Data secret) ''data'' = Some (JObject m)"
       "map_of m (KeyID sd) = Some (JString pk)"
       "HexToECDSA ext pk = Inr ws"
       "out = [Stdout (''Private key: '' @ pk @ [CHR 0x0A])]"
       "key = \<lparr>D = Some ws\<rparr>"
    unfolding getPrivateKey_ok by blast
  have "accountsSecretMap hw (Address account) = Some sd \<longrightarrow>
          fst (SignHash api ext hw account hash) = out
          \<and> fst (SignTx api ext hw account tx chainID isQuorum) = out"
  proof
    assume a: "accountsSecretMap hw (Address account) = Some sd"
    have c: "client hw \<noteq> None" using h(2) by simp
    from SignHash_past_retrieval [OF c a g, of hash]
         SignTx_past_retrieval [OF c a g, of tx chainID isQuorum]
    show "fst (SignHash api ext hw account hash) = out
          \<and> fst (SignTx api ext hw account tx chainID isQuorum) = out"
      by auto
  qed
  with h show "\<exists>path q c secret m pk ws.
        toRequestData sd = (path, q, None) \<and> client hw = Some c
        \<and> ReadWithData api c path (queryOf q) = (Some secret, None)
        \<and> map_of (Data secret) ''data'' = Some (JObject m)
        \<and> map_of m (KeyID sd) = Some (JString pk)
        \<and> HexToECDSA ext pk = Inr ws \<and> key = \<lparr>D = Some ws\<rparr>
        \<and> out = [Stdout (''Private key: '' @ pk @ [CHR 0x0A])]
        \<and> (accountsSecretMap hw (Address account) = Some sd \<longrightarrow>
              fst (SignHash api ext hw account hash) = [Stdout (''Private key: '' @ pk @ [CHR 0x0A])]
              \<and> fst (SignTx api ext hw account tx chainID isQuorum)
                  = [Stdout (''Private key: '' @ pk @ [CHR 0x0A])])"
    by blast
qed

theorem C7_private_key_printed_witness:
  "getPrivateKey fakeVault fakeExternals openWallet secret1 =
     ([Stdout (''Private key: 0123'' @ [CHR 0x0A])], Return (\<lparr>D = Some [0x0123]\<rparr>, None))
   \<and> accountsSecretMap openWallet (Address account1) = Some secret1
   \<and> fst (SignHash fakeVault fakeExternals openWallet account1 hash32)
       = [Stdout (''Private key: 0123'' @ [CHR 0x0A])]
   \<and> fst (SignTx fakeVault fakeExternals openWallet account1 tx1 None False)
       = [Stdout (''Private key: 0123'' @ [CHR 0x0A])]"
proof -
  have m: "accountsSecretMap openWallet (Address account1) = Some secret1"
    by (simp add: openWallet_def account1_def)
  from C7_private_key_printed
         [of fakeVault fakeExternals openWallet secret1
             "[Stdout (''Private key: 0123'' @ [CHR 0x0A])]" "\<lparr>D = Some [0x0123]\<rparr>"
             account1 hash32 tx1 None False]
       getPrivateKey_openWallet m
  show ?thesis by auto
qed

section \<open>Malformed secrets\<close>

lemma getPrivateKey_not_string:
  assumes "toRequestData sd = (path, q, None)" and "client hw = Some c"
    and "ReadWithData api c path (queryOf q) = (Some secret, None)"
    and "map_of (Data secret) ''data'' = Some (JObject m)"
    and "map_of m (KeyID sd) = Some v" and "\<forall>pk. v \<noteq> JString pk"
  shows "getPrivateKey api ext hw sd = ([], Panic ''Not of type string'')"
  using assms
  by (simp add: getPrivateKey_def read_def split: jval.splits)

lemma getPrivateKey_parse_error:
  assumes "toRequestData sd = (path, q, None)" and "client hw = Some c"
    and "ReadWithData api c path (queryOf q) = (Some secret, None)"
    and "map_of (Data secret) ''data'' = Some (JObject m)"
    and "map_of m (KeyID sd) = Some (JString pk)" and "HexToECDSA ext pk = Inl err"
  shows "getPrivateKey api ext hw sd =
           ([Stdout (''Private key: '' @ pk @ [CHR 0x0A])], Return (emptyKey, Some err))"
  using assms
  by (simp add: getPrivateKey_def read_def)

lemma getAccount_not_string:
  assumes "toRequestData sd = (path, q, None)" and "client hw = Some c"
    and "ReadWithData api c path (queryOf q) = (Some secret, None)"
    and "map_of (Data secret) ''data'' = Some (JObject m)"
    and "map_of m (AccountID sd) = Some v" and "\<forall>s. v \<noteq> JString s"
  shows "getAccount api ext hw sd =
           Return (emptyAccount,
                   Some (HashicorpError ''AccountID value in vault is not plain string'' sd (url hw) None))"
  using assms
  by (simp add: getAccount_def read_def split: jval.splits)

lemma toRequestData_secret2:
  "toRequestData secret2 = (''secret/data/acct2'', Some [''version'' \<mapsto> [''1'']], None)"
  by (simp add: toRequestData_def secret2_def Itoa_1)

text \<open>
  C4.  The stored secret \<open>secret/data/acct2\<close> has the number 7 in its key field.
  Key retrieval for it does not return an error: it panics with the message
  \<open>Not of type string\<close>, and so do \<open>SignHash\<close> and \<open>SignTx\<close> for an account mapped
  to that secret.
\<close>

theorem C4_non_string_key_panics:
  "getPrivateKey fakeVault fakeExternals openWallet secret2 = ([], Panic ''Not of type string'')
   \<and> SignHash fakeVault fakeExternals (openWallet\<lparr>accountsSecretMap := [addr1 \<mapsto> secret2]\<rparr>) account1 hash32
       = ([], None, Panic ''Not of type string'')"
proof -
  have k: "KeyID secret2 = ''key''" by (simp add: secret2_def)
  have g: "getPrivateKey fakeVault fakeExternals hw secret2 = ([], Panic ''Not of type string'')"
    if "client hw = Some c" for hw c
    using that
    by (simp add: getPrivateKey_def toRequestData_secret2 read_def
        fakeVault_def secretOf_def k queryOf_def)
  have c1: "client openWallet = Some client1"
    and c2: "client (openWallet\<lparr>accountsSecretMap := [addr1 \<mapsto> secret2]\<rparr>) = Some client1"
    by (simp_all add: openWallet_def closedWallet_def)
  show ?thesis
    using g [OF c1] g [OF c2] c2
    by (simp add: SignHash_def account1_def)
qed

section \<open>Signing\<close>

lemma vaultWallet_SignTx_past_retrieval:
  assumes "vaultWallet_Contains w account"
    and "serviceGetPrivateKey (vault w) account = (key, None)" and "D key = Some ws"
  shows "vaultWallet_SignTx ext w account tx chainID isQuorum =
           (Some (key\<lparr>D := Some (replicate (length ws) 0)\<rparr>),
            Return (typesSignTx ext tx (chooseSigner ext tx chainID) key))"
  using assms by (simp add: vaultWallet_SignTx_def zeroKey_Some Let_def)

lemma chooseSigner_eq:
  "chooseSigner ext tx chainID =
     (if chainID \<noteq> None \<and> \<not> IsPrivate ext tx then EIP155Signer (the chainID) else HomesteadSigner)"
  by (simp add: chooseSigner_def split: option.splits)

text \<open>
  C8.  A \<open>SignTx\<close> call whose key retrieval succeeded hands the transaction to the
  signing primitive with a signer that depends only on the chain id and on
  whether the transaction is private: the chain-aware signer for that chain id
  when a chain id is given and the transaction is not private, the Homestead
  signer in every other case.  The argument \<open>isQuorum\<close> plays no part.  The same
  holds for the wallet over a vault service.
\<close>

theorem C8_signer_choice:
  "(client hw \<noteq> None \<and> accountsSecretMap hw (Address account) = Some sd
      \<and> getPrivateKey api ext hw sd = (out, Return (key, None)) \<longrightarrow>
      snd (snd (SignTx api ext hw account tx chainID isQuorum)) =
        Return (typesSignTx ext tx
                  (if chainID \<noteq> None \<and> \<not> IsPrivate ext tx then EIP155Signer (the chainID)
                   else HomesteadSigner) key))
   \<and> (vaultWallet_Contains w account \<and> serviceGetPrivateKey (vault w) account = (key', None)
        \<and> D key' = Some ws \<longrightarrow>
      snd (vaultWallet_SignTx ext w account tx chainID isQuorum) =
        Return (typesSignTx ext tx
                  (if chainID \<noteq> None \<and> \<not> IsPrivate ext tx then EIP155Signer (the chainID)
                   else HomesteadSigner) key'))"
proof (intro conjI impI)
  assume a: "client hw \<noteq> None \<and> accountsSecretMap hw (Address account) = Some sd
      \<and> getPrivateKey api ext hw sd = (out, Return (key, None))"
  then have c: "client hw \<noteq> None" and m: "accountsSecretMap hw (Address account) = Some sd"
    and g: "getPrivateKey api ext hw sd = (out, Return (key, None))" by simp_all
  from SignTx_past_retrieval [OF c m g, of tx chainID isQuorum]
  show "snd (snd (SignTx api ext hw account tx chainID isQuorum)) =
        Return (typesSignTx ext tx
                  (if chainID \<noteq> None \<and> \<not> IsPrivate ext tx then EIP155Signer (the chainID)
                   else HomesteadSigner) key)"
    by (auto simp add: chooseSigner_eq)
next
  assume a: "vaultWallet_Contains w account \<and> serviceGetPrivateKey (vault w) account = (key', None)
        \<and> D key' = Some ws"
  then show "snd (vaultWallet_SignTx ext w account tx chainID isQuorum) =
        Return (typesSignTx ext tx
                  (if chainID \<noteq> None \<and> \<not> IsPrivate ext tx then EIP155Signer (the chainID)
                   else HomesteadSigner) key')"
    using vaultWallet_SignTx_past_retrieval [of w account key' ws ext tx chainID isQuorum]
    by (simp add: chooseSigner_eq)
qed

theorem C8_signer_choice_witness:
  "snd (snd (SignTx fakeVault fakeExternals openWallet account1 tx1 (Some 1) False)) =
     Return (Some (tx1\<lparr>txV := 37\<rparr>), None)
   \<and> snd (snd (SignTx fakeVault fakeExternals openWallet account1 txPrivate (Some 1) False)) =
     Return (Some (txPrivate\<lparr>txV := 27\<rparr>), None)
   \<and> snd (snd (SignTx fakeVault fakeExternals openWallet account1 tx1 None True)) =
     Return (Some (tx1\<lparr>txV := 27\<rparr>), None)
   \<and> snd (vaultWallet_SignTx fakeExternals vaultWallet1 account1 tx1 (Some 1) True) =
     Return (Some (tx1\<lparr>txV := 37\<rparr>), None)
   \<and> snd (vaultWallet_SignTx fakeExternals vaultWallet1 account1 txPrivate (Some 1) True) =
     Return (Some (txPrivate\<lparr>txV := 27\<rparr>), None)"
proof -
  have c: "client openWallet \<noteq> None"
    and m: "accountsSecretMap openWallet (Address account1) = Some secret1"
    by (simp_all add: openWallet_def account1_def)
  have v: "vaultWallet_Contains vaultWallet1 account1"
    and s: "serviceGetPrivateKey (vault vaultWallet1) account1 = (\<lparr>D = Some [0x0123]\<rparr>, None)"
    and d: "D \<lparr>D = Some [0x0123 :: 64 word]\<rparr> = Some [0x0123]"
    by (simp_all add: vaultWallet_Contains_def vaultWallet1_def fakeService_def account1_def)
  have p: "\<not> IsPrivate fakeExternals tx1" "IsPrivate fakeExternals txPrivate"
    by (simp_all add: fakeExternals_def tx1_def txPrivate_def)
  have t: "typesSignTx fakeExternals tx (EIP155Signer 1) k = (Some (tx\<lparr>txV := 37\<rparr>), None)"
          "typesSignTx fakeExternals tx HomesteadSigner k = (Some (tx\<lparr>txV := 27\<rparr>), None)" for tx k
    by (simp_all add: fakeExternals_def)
  note g = getPrivateKey_openWallet
  from C8_signer_choice [of openWallet account1 secret1 fakeVault fakeExternals _ _ tx1 "Some 1" False
                            vaultWallet1 "\<lparr>D = Some [0x0123]\<rparr>" "[0x0123]"]
       C8_signer_choice [of openWallet account1 secret1 fakeVault fakeExternals _ _ txPrivate "Some 1" False
                            vaultWallet1 "\<lparr>D = Some [0x0123]\<rparr>" "[0x0123]"]
       C8_signer_choice [of openWallet account1 secret1 fakeVault fakeExternals _ _ tx1 None True
                            vaultWallet1 "\<lparr>D = Some [0x0123]\<rparr>" "[0x0123]"]
       C8_signer_choice [of openWallet account1 secret1 fakeVault fakeExternals _ _ tx1 "Some 1" True
                            vaultWallet1 "\<lparr>D = Some [0x0123]\<rparr>" "[0x0123]"]
       C8_signer_choice [of openWallet account1 secret1 fakeVault fakeExternals _ _ txPrivate "Some 1" True
                            vaultWallet1 "\<lparr>D = Some [0x0123]\<rparr>" "[0x0123]"]
       c m v s d p g
  show ?thesis by (simp add: t)
qed











section \<open>Opening and closing the wallet\<close>

lemma Open_reaches_credentials:
  assumes "client hw = None" and "rlocks hw = 0"
    and "NewClient api env = Inr c0" and "SetAddress api (Url (clientData hw)) = None"
  shows "Open api env hw passphrase =
     (let c = c0\<lparr>address := Url (clientData hw)\<rparr>;
          roleId = env vaultRoleId;
          secretId = env vaultSecretId
      in if (roleId \<noteq> None) \<noteq> (secretId \<noteq> None)
         then ([], hw, Return (Some approleConfigError))
         else (case (roleId, secretId) of
                 (Some r, Some sid) \<Rightarrow>
                   (let authData = [(''role_id'', JString r), (''secret_id'', JString sid)];
                        approlePath = (case env vaultApprolePath of
                                         None \<Rightarrow> ''approle'' | Some ap \<Rightarrow> ap);
                        hw' = hw\<lparr>clientData := (clientData hw)\<lparr>Approle := approlePath\<rparr>\<rparr>;
                        loginPath = ''auth/'' @ Approle (clientData hw') @ ''/login''
                    in case Write api c loginPath authData of
                         (authResponse, Some err) \<Rightarrow>
                           ([VaultWrite loginPath authData], hw', Return (Some err))
                       | (None, None) \<Rightarrow>
                           ([VaultWrite loginPath authData], hw',
                            Panic ''invalid memory address or nil pointer dereference'')
                       | (Some authResponse, None) \<Rightarrow>
                           (case Auth authResponse of
                              None \<Rightarrow>
                                ([VaultWrite loginPath authData], hw',
                                 Panic ''invalid memory address or nil pointer dereference'')
                            | Some a \<Rightarrow>
                                finishOpen [VaultWrite loginPath authData] hw'
                                  (c\<lparr>token := ClientToken a\<rparr>)))
               | _ \<Rightarrow> finishOpen [] hw c))"
proof -
  have "RUnlock (RLock hw) = hw" using assms(2) by (simp add: RLock_def RUnlock_def)
  then show ?thesis using assms
    by (simp add: Open_def Let_def RLock_def canLock_def)
qed

lemma Open_partial:
  assumes "client hw = None" and "rlocks hw = 0"
    and "NewClient api env = Inr c0" and "SetAddress api (Url (clientData hw)) = None"
    and "(env vaultRoleId \<noteq> None) \<noteq> (env vaultSecretId \<noteq> None)"
  shows "Open api env hw passphrase = ([], hw, Return (Some approleConfigError))"
  using assms(5) by (simp add: Open_reaches_credentials [OF assms(1-4)] Let_def)

lemma Open_ambient:
  assumes "client hw = None" and "rlocks hw = 0"
    and "NewClient api env = Inr c0" and "SetAddress api (Url (clientData hw)) = None"
    and "env vaultRoleId = None" and "env vaultSecretId = None" and "updateFeed hw"
  shows "Open api env hw passphrase =
           ([FeedSend \<lparr>Wallet = url hw, Kind = WalletOpened\<rparr>],
            hw\<lparr>client := Some (c0\<lparr>address := Url (clientData hw)\<rparr>)\<rparr>, Return None)"
  using assms(5-7) by (simp add: Open_reaches_credentials [OF assms(1-4)] Let_def finishOpen_def)

lemma Open_approle_posts:
  assumes "client hw = None" and "rlocks hw = 0"
    and "NewClient api env = Inr c0" and "SetAddress api (Url (clientData hw)) = None"
    and "env vaultRoleId = Some r" and "env vaultSecretId = Some sid"
  shows "\<exists>rest hw' res. Open api env hw passphrase =
           (VaultWrite (''auth/'' @ approlePathOf env @ ''/login'')
              [(''role_id'', JString r), (''secret_id'', JString sid)] # rest, hw', res)
         \<and> (res = Return None \<longrightarrow>
              (\<exists>resp a. Write api (c0\<lparr>address := Url (clientData hw)\<rparr>)
                           (''auth/'' @ approlePathOf env @ ''/login'')
                           [(''role_id'', JString r), (''secret_id'', JString sid)] = (Some resp, None)
                 \<and> Auth resp = Some a
                 \<and> client hw' = Some \<lparr>address = Url (clientData hw), token = ClientToken a\<rparr>))"
  using assms(5-6)
  by (auto simp add: Open_reaches_credentials [OF assms(1-4)] Let_def finishOpen_def approlePathOf_def
      split: prod.splits option.splits)

lemma Open_approle_ok:
  assumes "client hw = None" and "rlocks hw = 0"
    and "NewClient api env = Inr c0" and "SetAddress api (Url (clientData hw)) = None"
    and "env vaultRoleId = Some r" and "env vaultSecretId = Some sid" and "updateFeed hw"
    and "Write api (c0\<lparr>address := Url (clientData hw)\<rparr>) (''auth/'' @ approlePathOf env @ ''/login'')
           [(''role_id'', JString r), (''secret_id'', JString sid)] = (Some resp, None)"
    and "Auth resp = Some a"
  shows "Open api env hw passphrase =
           ([VaultWrite (''auth/'' @ approlePathOf env @ ''/login'')
               [(''role_id'', JString r), (''secret_id'', JString sid)],
             FeedSend \<lparr>Wallet = url hw, Kind = WalletOpened\<rparr>],
            hw\<lparr>clientData := (clientData hw)\<lparr>Approle := approlePathOf env\<rparr>,
               client := Some \<lparr>address = Url (clientData hw), token = ClientToken a\<rparr>\<rparr>,
            Return None)"
  using assms(5-9)
  by (simp add: Open_reaches_credentials [OF assms(1-4)] Let_def finishOpen_def approlePathOf_def
      split: option.splits)

text \<open>
  C5.  Take an \<open>Open\<close> call on a wallet without a session, with no lock held, for
  which the client is created and accepts the address.  If exactly one of the
  role-id and secret-id variables is set, the call returns the partial-Approle
  configuration error and changes nothing.  If neither is set, the call writes
  nothing to the vault and, on a wallet with an update feed, succeeds with a
  session whose client still carries the token it was created with.  If both are
  set, the first thing the call does is to post the two values to
  \<open>auth/{approle path}/login\<close>; it can only succeed when that request answered
  with a client token, which is then the token of the session, and it does
  succeed in that case on a wallet with an update feed.
\<close>

theorem C5_open_credentials:
  "client hw = None \<and> rlocks hw = 0 \<and> NewClient api env = Inr c0
     \<and> SetAddress api (Url (clientData hw)) = None \<longrightarrow>
   ((env vaultRoleId \<noteq> None) \<noteq> (env vaultSecretId \<noteq> None) \<longrightarrow>
      Open api env hw passphrase = ([], hw, Return (Some approleConfigError)))
   \<and> (env vaultRoleId = None \<and> env vaultSecretId = None \<and> updateFeed hw \<longrightarrow>
      Open api env hw passphrase =
        ([FeedSend \<lparr>Wallet = url hw, Kind = WalletOpened\<rparr>],
         hw\<lparr>client := Some (c0\<lparr>address := Url (clientData hw)\<rparr>)\<rparr>, Return None))
   \<and> (env vaultRoleId = Some r \<and> env vaultSecretId = Some sid \<longrightarrow>
      (\<exists>rest hw' res. Open api env hw passphrase =
           (VaultWrite (''auth/'' @ approlePathOf env @ ''/login'')
              [(''role_id'', JString r), (''secret_id'', JString sid)] # rest, hw', res)
         \<and> (res = Return None \<longrightarrow>
              (\<exists>resp a. Write api (c0\<lparr>address := Url (clientData hw)\<rparr>)
                           (''auth/'' @ approlePathOf env @ ''/login'')
                           [(''role_id'', JString r), (''secret_id'', JString sid)] = (Some resp, None)
                 \<and> Auth resp = Some a
                 \<and> client hw' = Some \<lparr>address = Url (clientData hw), token = ClientToken a\<rparr>)))
      \<and> (updateFeed hw
          \<and> Write api (c0\<lparr>address := Url (clientData hw)\<rparr>) (''auth/'' @ approlePathOf env @ ''/login'')
               [(''role_id'', JString r), (''secret_id'', JString sid)] = (Some resp', None)
          \<and> Auth resp' = Some a' \<longrightarrow>
          Open api env hw passphrase =
            ([VaultWrite (''auth/'' @ approlePathOf env @ ''/login'')
                [(''role_id'', JString r), (''secret_id'', JString sid)],
              FeedSend \<lparr>Wallet = url hw, Kind = WalletOpened\<rparr>],
             hw\<lparr>clientData := (clientData hw)\<lparr>Approle := approlePathOf env\<rparr>,
                client := Some \<lparr>address = Url (clientData hw), token = ClientToken a'\<rparr>\<rparr>,
             Return None)))"
proof (intro impI, elim conjE)
  assume pre: "client hw = None" "rlocks hw = 0" "NewClient api env = Inr c0"
    "SetAddress api (Url (clientData hw)) = None"
  note p = Open_partial [OF pre, of passphrase]
  note a = Open_ambient [OF pre, of passphrase]
  note b = Open_approle_posts [OF pre, of r sid passphrase]
  note c = Open_approle_ok [OF pre, of r sid resp' a' passphrase]
  show "((env vaultRoleId \<noteq> None) \<noteq> (env vaultSecretId \<noteq> None) \<longrightarrow>
      Open api env hw passphrase = ([], hw, Return (Some approleConfigError)))
   \<and> (env vaultRoleId = None \<and> env vaultSecretId = None \<and> updateFeed hw \<longrightarrow>
      Open api env hw passphrase =
        ([FeedSend \<lparr>Wallet = url hw, Kind = WalletOpened\<rparr>],
         hw\<lparr>client := Some (c0\<lparr>address := Url (clientData hw)\<rparr>)\<rparr>, Return None))
   \<and> (env vaultRoleId = Some r \<and> env vaultSecretId = Some sid \<longrightarrow>
      (\<exists>rest hw' res. Open api env hw passphrase =
           (VaultWrite (''auth/'' @ approlePathOf env @ ''/login'')
              [(''role_id'', JString r), (''secret_id'', JString sid)] # rest, hw', res)
         \<and> (res = Return None \<longrightarrow>
              (\<exists>resp a. Write api (c0\<lparr>address := Url (clientData hw)\<rparr>)
                           (''auth/'' @ approlePathOf env @ ''/login'')
                           [(''role_id'', JString r), (''secret_id'', JString sid)] = (Some resp, None)
                 \<and> Auth resp = Some a
                 \<and> client hw' = Some \<lparr>address = Url (clientData hw), token = ClientToken a\<rparr>)))
      \<and> (updateFeed hw
          \<and> Write api (c0\<lparr>address := Url (clientData hw)\<rparr>) (''auth/'' @ approlePathOf env @ ''/login'')
               [(''role_id'', JString r), (''secret_id'', JString sid)] = (Some resp', None)
          \<and> Auth resp' = Some a' \<longrightarrow>
          Open api env hw passphrase =
            ([VaultWrite (''auth/'' @ approlePathOf env @ ''/login'')
                [(''role_id'', JString r), (''secret_id'', JString sid)],
              FeedSend \<lparr>Wallet = url hw, Kind = WalletOpened\<rparr>],
             hw\<lparr>clientData := (clientData hw)\<lparr>Approle := approlePathOf env\<rparr>,
                client := Some \<lparr>address = Url (clientData hw), token = ClientToken a'\<rparr>\<rparr>,
             Return None)))"
  proof (intro conjI impI)
    assume "(env vaultRoleId \<noteq> None) \<noteq> (env vaultSecretId \<noteq> None)"
    then show "Open api env hw passphrase = ([], hw, Return (Some approleConfigError))" by (rule p)
  next
    assume "env vaultRoleId = None \<and> env vaultSecretId = None \<and> updateFeed hw"
    then show "Open api env hw passphrase =
        ([FeedSend \<lparr>Wallet = url hw, Kind = WalletOpened\<rparr>],
         hw\<lparr>client := Some (c0\<lparr>address := Url (clientData hw)\<rparr>)\<rparr>, Return None)"
      using a by blast
  next
    assume "env vaultRoleId = Some r \<and> env vaultSecretId = Some sid"
    then show "\<exists>rest hw' res. Open api env hw passphrase =
           (VaultWrite (''auth/'' @ approlePathOf env @ ''/login'')
              [(''role_id'', JString r), (''secret_id'', JString sid)] # rest, hw', res)
         \<and> (res = Return None \<longrightarrow>
              (\<exists>resp a. Write api (c0\<lparr>address := Url (clientData hw)\<rparr>)
                           (''auth/'' @ approlePathOf env @ ''/login'')
                           [(''role_id'', JString r), (''secret_id'', JString sid)] = (Some resp, None)
                 \<and> Auth resp = Some a
                 \<and> client hw' = Some \<lparr>address = Url (clientData hw), token = ClientToken a\<rparr>))"
      using b by blast
  next
    assume "env vaultRoleId = Some r \<and> env vaultSecretId = Some sid"
      and "updateFeed hw
          \<and> Write api (c0\<lparr>address := Url (clientData hw)\<rparr>) (''auth/'' @ approlePathOf env @ ''/login'')
               [(''role_id'', JString r), (''secret_id'', JString sid)] = (Some resp', None)
          \<and> Auth resp' = Some a'"
    then show "Open api env hw passphrase =
            ([VaultWrite (''auth/'' @ approlePathOf env @ ''/login'')
                [(''role_id'', JString r), (''secret_id'', JString sid)],
              FeedSend \<lparr>Wallet = url hw, Kind = WalletOpened\<rparr>],
             hw\<lparr>clientData := (clientData hw)\<lparr>Approle := approlePathOf env\<rparr>,
                client := Some \<lparr>address = Url (clientData hw), token = ClientToken a'\<rparr>\<rparr>,
             Return None)"
      using c by blast
  qed
qed

theorem C5_open_credentials_witness:
  "Open fakeVault envPartial closedWallet [] = ([], closedWallet, Return (Some approleConfigError))
   \<and> Open fakeVault envToken closedWallet [] =
       ([FeedSend \<lparr>Wallet = url1, Kind = WalletOpened\<rparr>], sessionWallet, Return None)
   \<and> Open fakeVault envApprole closedWallet [] =
       ([VaultWrite ''auth/approle/login'' [(''role_id'', JString ''role-1''), (''secret_id'', JString ''secret-1'')],
         FeedSend \<lparr>Wallet = url1, Kind = WalletOpened\<rparr>],
        closedWallet\<lparr>clientData := clientData1\<lparr>Approle := ''approle''\<rparr>,
                     client := Some \<lparr>address = ''http://vault:8200'', token = ''s.session''\<rparr>\<rparr>,
        Return None)"
proof -
  have w: "client closedWallet = None" "rlocks closedWallet = 0" "updateFeed closedWallet"
    "url closedWallet = url1" "clientData closedWallet = clientData1"
    "Url clientData1 = ''http://vault:8200''"
    by (simp_all add: closedWallet_def clientData1_def)
  have n: "NewClient fakeVault envPartial = Inr \<lparr>address = [], token = ''root''\<rparr>"
    "NewClient fakeVault envToken = Inr \<lparr>address = [], token = ''root''\<rparr>"
    "NewClient fakeVault envApprole = Inr \<lparr>address = [], token = ''root''\<rparr>"
    "SetAddress fakeVault (Url (clientData closedWallet)) = None"
    by (simp_all add: fakeVault_def envPartial_def envToken_def envApprole_def)
  have e: "envPartial vaultRoleId = Some ''role-1''" "envPartial vaultSecretId = None"
    "envToken vaultRoleId = None" "envToken vaultSecretId = None"
    "envApprole vaultRoleId = Some ''role-1''" "envApprole vaultSecretId = Some ''secret-1''"
    "approlePathOf envApprole = ''approle''"
    by (simp_all add: envPartial_def envToken_def envApprole_def vaultRoleId_def vaultSecretId_def
        approlePathOf_def vaultApprolePath_def)
  have wr: "Write fakeVault c ''auth/approle/login'' d
              = (Some \<lparr>Data = [], Auth = Some \<lparr>ClientToken = ''s.session''\<rparr>\<rparr>, None)" for c d
    by (simp add: fakeVault_def)
  from C5_open_credentials [of closedWallet fakeVault envPartial _ "[]"] w n e
  have 1: "Open fakeVault envPartial closedWallet [] = ([], closedWallet, Return (Some approleConfigError))"
    by simp
  from C5_open_credentials [of closedWallet fakeVault envToken _ "[]"] w n e
  have 2: "Open fakeVault envToken closedWallet [] =
       ([FeedSend \<lparr>Wallet = url1, Kind = WalletOpened\<rparr>], sessionWallet, Return None)"
    by (simp add: sessionWallet_def)
  from C5_open_credentials [of closedWallet fakeVault envApprole _ "[]" "''role-1''" "''secret-1''"
         "\<lparr>Data = [], Auth = Some \<lparr>ClientToken = ''s.session''\<rparr>\<rparr>" "\<lparr>ClientToken = ''s.session''\<rparr>"]
       w n e
  have 3: "Open fakeVault envApprole closedWallet [] =
       ([VaultWrite ''auth/approle/login'' [(''role_id'', JString ''role-1''), (''secret_id'', JString ''secret-1'')],
         FeedSend \<lparr>Wallet = url1, Kind = WalletOpened\<rparr>],
        closedWallet\<lparr>clientData := clientData1\<lparr>Approle := ''approle''\<rparr>,
                     client := Some \<lparr>address = ''http://vault:8200'', token = ''s.session''\<rparr>\<rparr>,
        Return None)"
    by (simp add: wr)
  from 1 2 3 show ?thesis by simp
qed

lemma Open_already_open:
  "client hw \<noteq> None \<Longrightarrow>
     Open api env hw passphrase = ([], hw\<lparr>rlocks := Suc (rlocks hw)\<rparr>, Return (Some ErrWalletAlreadyOpen))"
  by (simp add: Open_def RLock_def Let_def)

lemma Close_no_session:
  "client hw = None \<Longrightarrow> rlocks hw = 0 \<Longrightarrow> Close hw = (hw, None, Return None)"
  by (simp add: Close_def canLock_def)

lemma Close_session:
  "client hw = Some c \<Longrightarrow> rlocks hw = 0 \<Longrightarrow>
     Close hw = (hw\<lparr>client := None, accounts := [], accountsSecretMap := Map.empty\<rparr>,
                 Some (c\<lparr>token := []\<rparr>), Return None)"
  by (simp add: Close_def canLock_def)

lemma Close_twice:
  "rlocks hw = 0 \<Longrightarrow> Close (fst (Close hw)) = (fst (Close hw), None, Return None)"
  by (cases "client hw") (simp_all add: Close_def canLock_def)

lemma Close_never_errors: "snd (snd (Close hw)) \<noteq> Return (Some err)"
  by (simp add: Close_def split: option.splits)

lemma Close_blocked:
  "0 < rlocks hw \<Longrightarrow> Close hw = (hw, None, Blocked)"
  by (simp add: Close_def canLock_def)

lemma Close_after_rejected_Open:
  "client hw \<noteq> None \<Longrightarrow>
     Close (fst (snd (Open api env hw passphrase))) = (hw\<lparr>rlocks := Suc (rlocks hw)\<rparr>, None, Blocked)"
  by (simp add: Open_already_open Close_blocked)

text \<open>
  C10.  A wallet is opened, opened again and then closed.  The first \<open>Open\<close>
  succeeds.  The second fails with the already-open error and leaves the session
  as it was, but it returns with the read lock it took still held.  The \<open>Close\<close>
  that follows therefore waits for the write lock for ever: it does not return,
  and the wallet keeps its session.
\<close>

theorem C10_close_blocks_after_rejected_open:
  "Open fakeVault envToken closedWallet [] =
     ([FeedSend \<lparr>Wallet = url1, Kind = WalletOpened\<rparr>], sessionWallet, Return None)
   \<and> Open fakeVault envToken sessionWallet [] =
       ([], sessionWallet\<lparr>rlocks := 1\<rparr>, Return (Some ErrWalletAlreadyOpen))
   \<and> client (sessionWallet\<lparr>rlocks := 1\<rparr>) = client sessionWallet
   \<and> Close (sessionWallet\<lparr>rlocks := 1\<rparr>) = (sessionWallet\<lparr>rlocks := 1\<rparr>, None, Blocked)
   \<and> client (fst (Close (sessionWallet\<lparr>rlocks := 1\<rparr>)))
       = Some \<lparr>address = ''http://vault:8200'', token = ''root''\<rparr>"
proof -
  have w: "client closedWallet = None" "rlocks closedWallet = 0" "updateFeed closedWallet"
    "url closedWallet = url1" "clientData closedWallet = clientData1"
    "Url clientData1 = ''http://vault:8200''"
    by (simp_all add: closedWallet_def clientData1_def)
  have n: "NewClient fakeVault envToken = Inr \<lparr>address = [], token = ''root''\<rparr>"
    "SetAddress fakeVault (Url (clientData closedWallet)) = None"
    "envToken vaultRoleId = None" "envToken vaultSecretId = None"
    by (simp_all add: fakeVault_def envToken_def vaultRoleId_def vaultSecretId_def)
  have 1: "Open fakeVault envToken closedWallet [] =
     ([FeedSend \<lparr>Wallet = url1, Kind = WalletOpened\<rparr>], sessionWallet, Return None)"
    using Open_ambient [OF w(1) w(2) n(1) n(2) n(3) n(4) w(3), of "[]"] w
    by (simp add: sessionWallet_def)
  have s: "client sessionWallet = Some \<lparr>address = ''http://vault:8200'', token = ''root''\<rparr>"
    "rlocks sessionWallet = 0"
    by (simp_all add: sessionWallet_def closedWallet_def)
  have 2: "Open fakeVault envToken sessionWallet [] =
       ([], sessionWallet\<lparr>rlocks := 1\<rparr>, Return (Some ErrWalletAlreadyOpen))"
    using s by (simp add: Open_already_open)
  have 3: "Close (sessionWallet\<lparr>rlocks := 1\<rparr>) = (sessionWallet\<lparr>rlocks := 1\<rparr>, None, Blocked)"
    by (simp add: Close_blocked)
  from 1 2 3 s show ?thesis by simp
qed

section \<open>Building the backend\<close>

lemma Split_with_scheme: "Split ''http://vault:8200'' ''://'' = [''http'', ''vault:8200'']"
  by (simp add: Split_def)

lemma Split_without_scheme: "Split ''vault:8200'' ''://'' = [''vault:8200'']"
  by (simp add: Split_def)

lemma parseURL_ok: "parseURL ''http://vault:8200'' = (url1, None)"
  by (simp add: parseURL_def Split_with_scheme url1_def Let_def)

lemma parseURL_malformed: "parseURL ''vault:8200'' = (emptyURL, Some (ErrorsNew ''protocol scheme missing''))"
  by (simp add: parseURL_def Split_without_scheme Let_def)

lemma parseURL_ok3: "parseURL ''http://vault:8203'' = (url3, None)"
  by (simp add: parseURL_def Split_def url3_def Let_def)

lemma buildWallets_length:
  "length (snd (snd (buildWallets cfgs))) = length cfgs"
  by (induction cfgs) (auto split: prod.splits)

lemma NewHashicorpBackend_length:
  "length (Wallets (snd (NewHashicorpBackend cfgs))) = length cfgs"
  using buildWallets_length [of cfgs]
  by (auto simp add: NewHashicorpBackend_def refreshWallets_def Wallets_def split: prod.splits)

lemma NewHashicorpWallet_good1:
  "NewHashicorpWallet clientData1 scrts True =
     (emptyWallet\<lparr>clientData := clientData1, secrets := scrts, url := url1, updateFeed := True\<rparr>, None)"
  by (simp add: NewHashicorpWallet_def newHashicorpWallet_def clientData1_def parseURL_ok)

lemma NewHashicorpWallet_good3:
  "NewHashicorpWallet clientData3 scrts True =
     (emptyWallet\<lparr>clientData := clientData3, secrets := scrts, url := url3, updateFeed := True\<rparr>, None)"
  by (simp add: NewHashicorpWallet_def newHashicorpWallet_def clientData3_def parseURL_ok3)

lemma NewHashicorpWallet_bad:
  "NewHashicorpWallet clientDataBad scrts True =
     (emptyWallet\<lparr>updateFeed := True\<rparr>, Some (ErrorsNew ''protocol scheme missing''))"
  by (simp add: NewHashicorpWallet_def newHashicorpWallet_def clientDataBad_def parseURL_malformed)

text \<open>
  C3.  A backend is built from three configurations of which the second has the
  address \<open>vault:8200\<close>, which has no scheme.  The construction does not fail and
  logs a warning for the second configuration, but the collection it yields has
  three wallets, not two: the second is the empty wallet that the failed
  constructor returned, and an arrival event is sent for it as for the others.
\<close>

theorem C3_malformed_wallet_kept:
  "NewHashicorpBackend [config1, configBad, config3] =
     ([LogWarn ''Unable to create Hashicorp wallet'' (ErrorsNew ''protocol scheme missing''),
       FeedSend \<lparr>Wallet = url1, Kind = WalletArrived\<rparr>,
       FeedSend \<lparr>Wallet = emptyURL, Kind = WalletArrived\<rparr>,
       FeedSend \<lparr>Wallet = url3, Kind = WalletArrived\<rparr>],
      \<lparr>wallets =
         [emptyWallet\<lparr>clientData := clientData1, secrets := [secret1], url := url1, updateFeed := True\<rparr>,
          emptyWallet\<lparr>updateFeed := True\<rparr>,
          emptyWallet\<lparr>clientData := clientData3, secrets := [secret3], url := url3, updateFeed := True\<rparr>],
       hashicorpConfigs = [config1, configBad, config3]\<rparr>)
   \<and> length (Wallets (snd (NewHashicorpBackend [config1, configBad, config3]))) = 3"
  by (simp add: NewHashicorpBackend_def refreshWallets_def Wallets_def config1_def configBad_def config3_def
      NewHashicorpWallet_good1 NewHashicorpWallet_good3 NewHashicorpWallet_bad emptyWallet_def)

section \<open>Refreshing the accounts\<close>

lemma refreshLoop_all_ok:
  assumes "\<forall>s \<in> set ss. resolves api ext hw s"
    and "i + length ss \<le> length accts"
  shows "refreshLoop api ext hw i ss accts m =
           Return (Inr (take i accts @ map (accountOf api ext hw) ss @ drop (i + length ss) accts,
                        m ++ map_of (rev (map (\<lambda>s. (Address (accountOf api ext hw s), s)) ss))))"
  using assms
proof (induction ss arbitrary: i accts m)
  case Nil
  then show ?case by simp
next
  case (Cons s ss)
  from Cons.prems(1) obtain a where a: "getAccount api ext hw s = Return (a, None)"
    by (auto simp add: resolves_def split: outcome.splits option.splits prod.splits)
  then have ao: "accountOf api ext hw s = a" by (simp add: accountOf_def)
  have i: "i < length accts" using Cons.prems(2) by simp
  have "refreshLoop api ext hw i (s # ss) accts m =
          refreshLoop api ext hw (Suc i) ss (accts[i := a]) (m(Address a \<mapsto> s))"
    using a by simp
  also have "\<dots> = Return (Inr (take (Suc i) (accts[i := a]) @ map (accountOf api ext hw) ss
                                 @ drop (Suc i + length ss) (accts[i := a]),
                               m(Address a \<mapsto> s) ++ map_of (rev (map (\<lambda>s. (Address (accountOf api ext hw s), s)) ss))))"
    using Cons.prems by (intro Cons.IH) simp_all
  also have "take (Suc i) (accts[i := a]) = take i accts @ [a]"
    using i by (simp add: take_Suc_conv_app_nth)
  also have "drop (Suc i + length ss) (accts[i := a]) = drop (i + length (s # ss)) accts"
    by simp
  also have "m(Address a \<mapsto> s) ++ map_of (rev (map (\<lambda>s. (Address (accountOf api ext hw s), s)) ss))
           = m ++ map_of (rev (map (\<lambda>s. (Address (accountOf api ext hw s), s)) (s # ss)))"
    by (rule HOL.ext) (simp add: ao map_add_def split: option.splits)
  finally show ?case by (simp add: ao)
qed

lemma refreshLoop_first_failure:
  assumes "\<forall>s \<in> set pre. resolves api ext hw s"
  shows "getAccount api ext hw s = Return (a, Some err) \<Longrightarrow>
           refreshLoop api ext hw i (pre @ s # post) accts m = Return (Inl err)"
    and "getAccount api ext hw s = Panic p \<Longrightarrow>
           refreshLoop api ext hw i (pre @ s # post) accts m = Panic p"
  using assms
proof (induction pre arbitrary: i accts m)
  case Nil
  { case 1 then show ?case by simp }
  { case 2 then show ?case by simp }
next
  case (Cons x pre)
  { case 1
    from 1(2) obtain b where "getAccount api ext hw x = Return (b, None)"
      by (auto simp add: resolves_def split: outcome.splits option.splits prod.splits)
    then show ?case using Cons.IH(1) [OF 1(1)] 1(2) by simp }
  { case 2
    from 2(2) obtain b where "getAccount api ext hw x = Return (b, None)"
      by (auto simp add: resolves_def split: outcome.splits option.splits prod.splits)
    then show ?case using Cons.IH(2) [OF 2(1)] 2(2) by simp }
qed

lemma refreshLoop_ok_resolves:
  "refreshLoop api ext hw i ss accts m = Return (Inr x) \<Longrightarrow> \<forall>s \<in> set ss. resolves api ext hw s"
proof (induction ss arbitrary: i accts m)
  case Nil
  then show ?case by simp
next
  case (Cons s ss)
  from Cons.prems obtain a where a: "getAccount api ext hw s = Return (a, None)"
    by (auto split: outcome.splits option.splits prod.splits)
  with Cons.prems have "refreshLoop api ext hw (Suc i) ss (accts[i := a]) (m(Address a \<mapsto> s)) = Return (Inr x)"
    by simp
  from Cons.IH [OF this] a show ?case by (simp add: resolves_def)
qed

lemma refreshAccounts_unchanged:
  "snd (refreshAccounts api ext hw) \<noteq> Return None \<Longrightarrow> fst (refreshAccounts api ext hw) = hw"
  by (auto simp add: refreshAccounts_def split: outcome.splits sum.splits prod.splits)

lemma refreshAccounts_ok_resolves:
  "snd (refreshAccounts api ext hw) = Return None \<Longrightarrow> \<forall>s \<in> set (secrets hw). resolves api ext hw s"
  using refreshLoop_ok_resolves [of api ext hw 0 "secrets hw" "replicate (length (secrets hw)) emptyAccount" Map.empty]
  by (auto simp add: refreshAccounts_def split: outcome.splits sum.splits prod.splits)

lemma refreshAccounts_first_error:
  assumes "secrets hw = pre @ s # post" and "\<forall>x \<in> set pre. resolves api ext hw x"
    and "getAccount api ext hw s = Return (a, Some err)"
  shows "refreshAccounts api ext hw = (hw, Return (Some err))"
  using refreshLoop_first_failure(1) [OF assms(2) assms(3)]
  by (simp add: refreshAccounts_def assms(1))

lemma refreshAccounts_all_ok:
  assumes "\<forall>s \<in> set (secrets hw). resolves api ext hw s"
  shows "refreshAccounts api ext hw =
           (hw\<lparr>accounts := map (accountOf api ext hw) (secrets hw),
               accountsSecretMap := map_of (rev (map (\<lambda>s. (Address (accountOf api ext hw s), s)) (secrets hw)))\<rparr>,
            Return None)"
  using refreshLoop_all_ok [OF assms, of 0 "replicate (length (secrets hw)) emptyAccount" Map.empty]
  by (simp add: refreshAccounts_def)

lemma toRequestData_secret3:
  "toRequestData secret3 = (''secret/data/gone'', Some [''version'' \<mapsto> [''1'']], None)"
  by (simp add: toRequestData_def secret3_def Itoa_1)

lemma parseURL_account1:
  "parseURL ''http://vault:8200/v1/secret/data/acct1?version=1''
     = (\<lparr>Scheme = ''http'', Path = ''vault:8200/v1/secret/data/acct1?version=1''\<rparr>, None)"
  by (simp add: parseURL_def Split_def Let_def)

lemma getAccount_secret1:
  assumes "client hw = Some c" and "clientData hw = clientData1"
  shows "getAccount fakeVault fakeExternals hw secret1 = Return (account1Located, None)"
proof -
  have f: "AccountID secret1 = ''address''" "Version secret1 = 1" "Url clientData1 = ''http://vault:8200''"
    by (simp_all add: secret1_def clientData1_def)
  have r: "ReadWithData fakeVault c ''secret/data/acct1'' q = (Some (secretOf (JString keyHex)), None)" for q
    by (simp add: fakeVault_def)
  have x: "IsHexAddress fakeExternals addrHex" "HexToAddress fakeExternals addrHex = addr1"
    by (simp_all add: fakeExternals_def)
  show ?thesis
    using assms
    by (simp add: getAccount_def toRequestData_secret1 read_def r secretOf_def f x Itoa_1
        parseURL_account1 account1Located_def)
qed

lemma getAccount_secret3:
  assumes "client hw = Some c"
  shows "getAccount fakeVault fakeExternals hw secret3 =
           Return (emptyAccount,
                   Some (HashicorpError ''unable to retrieve secret from vault'' secret3 (url hw)
                           (Some (ExternalError ''connection refused''))))"
proof -
  have r: "ReadWithData fakeVault c ''secret/data/gone'' q = (None, Some (ExternalError ''connection refused''))" for q
    by (simp add: fakeVault_def)
  show ?thesis
    using assms by (simp add: getAccount_def toRequestData_secret3 read_def r)
qed

text \<open>
  What \<open>refreshAccounts\<close> does for descriptors whose resolution returns.  If the
  descriptors before some descriptor all resolve and that descriptor fails with
  an error, \<open>refreshAccounts\<close> returns that error and the wallet it leaves is the
  wallet it was given.  Whenever \<open>refreshAccounts\<close> does not return success the
  wallet is unchanged, so its account list and its index are as before.  If every
  descriptor resolves, \<open>refreshAccounts\<close> succeeds and replaces the list by the
  accounts of the descriptors, in order, and the index by the map from their
  addresses to the descriptors (a later descriptor wins for an address that
  occurs twice).  It succeeds only if every descriptor resolves.
\<close>

lemma refreshAccounts_all_or_nothing:
  "(secrets hw = pre @ s # post \<and> (\<forall>x \<in> set pre. resolves api ext hw x)
      \<and> getAccount api ext hw s = Return (a, Some err) \<longrightarrow>
      refreshAccounts api ext hw = (hw, Return (Some err)))
   \<and> (snd (refreshAccounts api ext hw) \<noteq> Return None \<longrightarrow>
        fst (refreshAccounts api ext hw) = hw)
   \<and> ((\<forall>x \<in> set (secrets hw). resolves api ext hw x) \<longrightarrow>
        refreshAccounts api ext hw =
          (hw\<lparr>accounts := map (accountOf api ext hw) (secrets hw),
              accountsSecretMap := map_of (rev (map (\<lambda>x. (Address (accountOf api ext hw x), x)) (secrets hw)))\<rparr>,
           Return None))
   \<and> (snd (refreshAccounts api ext hw) = Return None \<longrightarrow>
        (\<forall>x \<in> set (secrets hw). resolves api ext hw x))"
  using refreshAccounts_first_error [of hw pre s post api ext a err]
    refreshAccounts_unchanged [of api ext hw]
    refreshAccounts_all_ok [of hw api ext]
    refreshAccounts_ok_resolves [of api ext hw]
  by blast

lemma refreshAccounts_all_or_nothing_example:
  "refreshAccounts fakeVault fakeExternals refreshWallet =
     (refreshWallet,
      Return (Some (HashicorpError ''unable to retrieve secret from vault'' secret3 url1
                      (Some (ExternalError ''connection refused'')))))
   \<and> accounts (fst (refreshAccounts fakeVault fakeExternals refreshWallet)) = [account1]
   \<and> accountsSecretMap (fst (refreshAccounts fakeVault fakeExternals refreshWallet)) = [addr1 \<mapsto> secret1]
   \<and> refreshAccounts fakeVault fakeExternals sessionWallet =
       (sessionWallet\<lparr>accounts := [account1Located], accountsSecretMap := [addr1 \<mapsto> secret1]\<rparr>, Return None)"
proof -
  have rw: "secrets refreshWallet = [secret1] @ secret3 # [secret1]"
    "client refreshWallet = Some client1" "clientData refreshWallet = clientData1"
    "url refreshWallet = url1" "accounts refreshWallet = [account1]"
    "accountsSecretMap refreshWallet = [addr1 \<mapsto> secret1]"
    by (simp_all add: refreshWallet_def openWallet_def closedWallet_def)
  have sw: "secrets sessionWallet = [secret1]"
    "client sessionWallet = Some \<lparr>address = ''http://vault:8200'', token = ''root''\<rparr>"
    "clientData sessionWallet = clientData1"
    by (simp_all add: sessionWallet_def closedWallet_def)
  have r1: "\<forall>x \<in> set [secret1]. resolves fakeVault fakeExternals refreshWallet x"
    by (simp add: resolves_def getAccount_secret1 [OF rw(2) rw(3)])
  have r2: "\<forall>x \<in> set (secrets sessionWallet). resolves fakeVault fakeExternals sessionWallet x"
    by (simp add: sw(1) resolves_def getAccount_secret1 [OF sw(2) sw(3)])
  have ao: "accountOf fakeVault fakeExternals sessionWallet secret1 = account1Located"
    by (simp add: accountOf_def getAccount_secret1 [OF sw(2) sw(3)])
  from refreshAccounts_all_or_nothing [of refreshWallet "[secret1]" secret3 "[secret1]" fakeVault fakeExternals]
       rw(1) r1 getAccount_secret3 [OF rw(2)] rw(4)
  have 1: "refreshAccounts fakeVault fakeExternals refreshWallet =
     (refreshWallet,
      Return (Some (HashicorpError ''unable to retrieve secret from vault'' secret3 url1
                      (Some (ExternalError ''connection refused'')))))"
    by simp
  from refreshAccounts_all_or_nothing [of sessionWallet _ _ _ fakeVault fakeExternals] r2
  have 2: "refreshAccounts fakeVault fakeExternals sessionWallet =
       (sessionWallet\<lparr>accounts := [account1Located], accountsSecretMap := [addr1 \<mapsto> secret1]\<rparr>, Return None)"
    by (simp add: sw(1) ao account1Located_def)
  from 1 2 rw(5) rw(6) show ?thesis by simp
qed

lemma toRequestData_secretAbsent:
  "toRequestData secretAbsent = (''secret/data/absent'', Some [''version'' \<mapsto> [''1'']], None)"
  by (simp add: toRequestData_def secretAbsent_def Itoa_1)

lemma toRequestData_secretNeg:
  "toRequestData secretNeg = ([], None, Some (Errorf ''Hashicorp Vault secret version must be integer >= 0''))"
  by (simp add: toRequestData_def secretNeg_def)

lemma getAccount_nil_secret:
  assumes "toRequestData sd = (path, q, None)" and "client hw = Some c"
    and "ReadWithData api c path (queryOf q) = (None, None)"
  shows "getAccount api ext hw sd = Panic ''invalid memory address or nil pointer dereference''"
  using assms by (simp add: getAccount_def read_def)

lemma getAccount_nil_client:
  assumes "toRequestData sd = (path, q, None)" and "client hw = None"
  shows "getAccount api ext hw sd = Panic ''invalid memory address or nil pointer dereference''"
  using assms by (simp add: getAccount_def read_def)

lemma getAccount_not_object:
  assumes "toRequestData sd = (path, q, None)" and "client hw = Some c"
    and "ReadWithData api c path (queryOf q) = (Some secret, None)"
    and "\<forall>m. map_of (Data secret) ''data'' \<noteq> Some (JObject m)"
  shows "getAccount api ext hw sd = Panic ''interface conversion: interface {} is not map[string]interface {}''"
  using assms by (simp add: getAccount_def read_def split: option.splits jval.splits)

lemma refreshAccounts_panic:
  assumes "secrets hw = pre @ s # post" and "\<forall>x \<in> set pre. resolves api ext hw x"
    and "getAccount api ext hw s = Panic p"
  shows "refreshAccounts api ext hw = (hw, Panic p)"
  using refreshLoop_first_failure(2) [OF assms(2) assms(3)]
  by (simp add: refreshAccounts_def assms(1))

text \<open>
  C2.  An open wallet is configured with two descriptors: the first names a
  secret that the vault does not hold, so that the client answers without a
  secret and without an error, and the second has the version -1, whose
  resolution fails with an error.  Resolving the first descriptor panics on the
  missing secret, and \<open>refreshAccounts\<close> panics with it: it returns no error,
  neither for the first descriptor nor the one of the second.  The same happens
  for a wallet that has no session.  The wallet is left as it was.
\<close>

theorem C2_refresh_panics_without_error:
  "getAccount fakeVault fakeExternals absentWallet secretAbsent
     = Panic ''invalid memory address or nil pointer dereference''
   \<and> getAccount fakeVault fakeExternals absentWallet secretNeg
     = Return (emptyAccount,
               Some (HashicorpError ''unable to get secret URL from data'' secretNeg emptyURL
                       (Some (Errorf ''Hashicorp Vault secret version must be integer >= 0''))))
   \<and> refreshAccounts fakeVault fakeExternals absentWallet
     = (absentWallet, Panic ''invalid memory address or nil pointer dereference'')
   \<and> refreshAccounts fakeVault fakeExternals closedWallet
     = (closedWallet, Panic ''invalid memory address or nil pointer dereference'')"
proof -
  have w: "secrets absentWallet = [] @ secretAbsent # [secretNeg]" "client absentWallet = Some client1"
    by (simp_all add: absentWallet_def openWallet_def closedWallet_def)
  have r: "ReadWithData fakeVault client1 ''secret/data/absent'' q = (None, None)" for q
    by (simp add: fakeVault_def)
  have 1: "getAccount fakeVault fakeExternals absentWallet secretAbsent
     = Panic ''invalid memory address or nil pointer dereference''"
    by (rule getAccount_nil_secret [OF toRequestData_secretAbsent w(2) r])
  have 2: "getAccount fakeVault fakeExternals absentWallet secretNeg
     = Return (emptyAccount,
               Some (HashicorpError ''unable to get secret URL from data'' secretNeg emptyURL
                       (Some (Errorf ''Hashicorp Vault secret version must be integer >= 0''))))"
    by (simp add: getAccount_def toRequestData_secretNeg)
  have 3: "refreshAccounts fakeVault fakeExternals absentWallet
     = (absentWallet, Panic ''invalid memory address or nil pointer dereference'')"
    by (rule refreshAccounts_panic [OF w(1) _ 1]) simp
  have c: "secrets closedWallet = [] @ secret1 # []" "client closedWallet = None"
    by (simp_all add: closedWallet_def)
  have 4: "refreshAccounts fakeVault fakeExternals closedWallet
     = (closedWallet, Panic ''invalid memory address or nil pointer dereference'')"
    by (rule refreshAccounts_panic [OF c(1) _ getAccount_nil_client [OF toRequestData_secret1 c(2)]]) simp
  from 1 2 3 4 show ?thesis by simp
qed

end
